theory Spec2Isabelle
  imports Main "HOL-Library.Word"
begin

unbundle bit_operations_syntax

section \<open>Python values used by server.py\<close>

text \<open>
  A Python \<open>str\<close> is a sequence of Unicode code points, a \<open>bytes\<close> object a sequence of
  octets. \<open>len\<close> of a \<open>str\<close> counts code points, \<open>len\<close> of \<open>bytes\<close> counts octets.
  String literals of the source are written \<open>S ''...''\<close>.
\<close>

type_synonym pystr = "nat list"
type_synonym byte = "8 word"
type_synonym pybytes = "byte list"

definition S :: "string \<Rightarrow> pystr" where
  "S s = map of_char s"

datatype py_error =
    IndexError | KeyError | TypeError | UnicodeEncodeError | UnicodeDecodeError
  | FileNotFoundError | IsADirectoryError | PermissionError

text \<open>Sequencing of fallible steps: the first exception raised ends the computation.\<close>

definition and_then :: "py_error + 'a \<Rightarrow> ('a \<Rightarrow> py_error + 'b) \<Rightarrow> py_error + 'b" where
  "and_then m f = (case m of Inl e \<Rightarrow> Inl e | Inr x \<Rightarrow> f x)"

text \<open>\<open>NEWLINE = "\r\n"\<close>\<close>

definition NEWLINE :: pystr where
  "NEWLINE = [13, 10]"

subsection \<open>str.encode("utf-8")\<close>

definition encodable_char :: "nat \<Rightarrow> bool" where
  "encodable_char c = (c < 0xD800 \<or> (0xDFFF < c \<and> c < 0x110000))"

definition utf8_char :: "nat \<Rightarrow> pybytes" where
  "utf8_char c =
     (if c < 0x80 then [of_nat c]
      else if c < 0x800 then [of_nat (0xC0 + c div 64), of_nat (0x80 + c mod 64)]
      else if c < 0x10000 then
        [of_nat (0xE0 + c div 4096), of_nat (0x80 + (c div 64) mod 64), of_nat (0x80 + c mod 64)]
      else
        [of_nat (0xF0 + c div 262144), of_nat (0x80 + (c div 4096) mod 64),
         of_nat (0x80 + (c div 64) mod 64), of_nat (0x80 + c mod 64)])"

definition utf8 :: "pystr \<Rightarrow> pybytes" where
  "utf8 s = concat (map utf8_char s)"

definition encodable :: "pystr \<Rightarrow> bool" where
  "encodable s = list_all encodable_char s"

text \<open>
  \<open>s.encode("utf-8")\<close>: a lone surrogate raises \<open>UnicodeEncodeError\<close>; values from
  \<open>0x110000\<close> on are no code points and are rejected the same way.
\<close>

definition encode :: "pystr \<Rightarrow> py_error + pybytes" where
  "encode s = (if encodable s then Inr (utf8 s) else Inl UnicodeEncodeError)"

subsection \<open>str(n) for a non-negative integer\<close>

fun str_nat :: "nat \<Rightarrow> pystr" where
  "str_nat n = (if n < 10 then [48 + n] else str_nat (n div 10) @ [48 + n mod 10])"

declare str_nat.simps [simp del]

subsection \<open>Sequence operations\<close>

text \<open>\<open>xs[i]\<close> for \<open>i \<ge> 0\<close>: out of range raises \<open>IndexError\<close>.\<close>

definition index :: "'a list \<Rightarrow> nat \<Rightarrow> py_error + 'a" where
  "index xs i = (if i < length xs then Inr (xs ! i) else Inl IndexError)"

text \<open>\<open>xs[-1]\<close>\<close>

definition index_last :: "'a list \<Rightarrow> py_error + 'a" where
  "index_last xs = (if xs = [] then Inl IndexError else Inr (last xs))"

text \<open>\<open>sep.join(xs)\<close>\<close>

fun join :: "'a list \<Rightarrow> 'a list list \<Rightarrow> 'a list" where
  "join sep [] = []"
| "join sep [x] = x"
| "join sep (x # y # ys) = x @ sep @ join sep (y # ys)"

text \<open>
  \<open>s.split(sep)\<close> for a non-empty separator: the pieces between the non-overlapping
  occurrences of \<open>sep\<close>, found from the left; always at least one piece. (Python raises
  \<open>ValueError\<close> on an empty separator; the source only splits on non-empty literals.)
\<close>

function split :: "'a list \<Rightarrow> 'a list \<Rightarrow> 'a list list" where
  "split sep [] = [[]]"
| "split sep (x # xs) =
     (if sep \<noteq> [] \<and> take (length sep) (x # xs) = sep
      then [] # split sep (drop (length sep) (x # xs))
      else (case split sep xs of [] \<Rightarrow> [[x]] | p # ps \<Rightarrow> (x # p) # ps))"
  by pat_completeness auto
termination
  by (relation "measure (\<lambda>(sep, s). length s)") (auto simp: neq_Nil_conv)

declare split.simps(2) [simp del]

text \<open>\<open>s.find(c)\<close> for a one-character string \<open>c\<close>: the first index, or \<open>-1\<close>.\<close>

fun find_from :: "int \<Rightarrow> nat \<Rightarrow> pystr \<Rightarrow> int" where
  "find_from i c [] = -1"
| "find_from i c (x # xs) = (if x = c then i else find_from (i + 1) c xs)"

definition find_char :: "pystr \<Rightarrow> nat \<Rightarrow> int" where
  "find_char s c = find_from 0 c s"

text \<open>\<open>s.replace(a, b)\<close> for one-character strings \<open>a\<close> and \<open>b\<close>.\<close>

definition replace_char :: "nat \<Rightarrow> nat \<Rightarrow> pystr \<Rightarrow> pystr" where
  "replace_char a b s = map (\<lambda>c. if c = a then b else c) s"

text \<open>\<open>str.isspace\<close> on one code point.\<close>

definition isspace :: "nat \<Rightarrow> bool" where
  "isspace c = (c \<in> set [9, 10, 11, 12, 13, 28, 29, 30, 31, 32, 133, 160, 5760,
                  8192, 8193, 8194, 8195, 8196, 8197, 8198, 8199, 8200, 8201, 8202,
                  8232, 8233, 8239, 8287, 12288])"

text \<open>\<open>s.strip()\<close>\<close>

definition strip :: "pystr \<Rightarrow> pystr" where
  "strip s = rev (dropWhile isspace (rev (dropWhile isspace s)))"

text \<open>\<open>s.split()\<close>: the maximal runs of non-whitespace.\<close>

fun split_ws_from :: "pystr \<Rightarrow> pystr \<Rightarrow> pystr list" where
  "split_ws_from cur [] = (if cur = [] then [] else [cur])"
| "split_ws_from cur (c # cs) =
     (if isspace c then (if cur = [] then split_ws_from [] cs else cur # split_ws_from [] cs)
      else split_ws_from (cur @ [c]) cs)"

definition split_ws :: "pystr \<Rightarrow> pystr list" where
  "split_ws s = split_ws_from [] s"

section \<open>ResponseBuilder\<close>

text \<open>
  \<open>self.content\<close> starts as the \<open>str\<close> \<open>""\<close>; \<open>set_content\<close> stores \<open>bytes\<close>.
  \<open>self.status\<close> and \<open>self.content_type\<close> start as \<open>None\<close>.
\<close>

datatype content = Text pystr | Bytes pybytes

record ResponseBuilder =
  headers :: "pystr list"
  status :: "pystr option"
  content :: content
  content_type :: "pystr option"

definition init :: ResponseBuilder where
  "init = \<lparr>headers = [], status = None, content = Text [], content_type = None\<rparr>"

text \<open>\<open>self.headers.append(f"{headerKey}: {headerValue}")\<close>, the value already formatted.\<close>

definition add_header :: "ResponseBuilder \<Rightarrow> pystr \<Rightarrow> pystr \<Rightarrow> ResponseBuilder" where
  "add_header b headerKey headerValue =
     b\<lparr>headers := headers b @ [headerKey @ S '': '' @ headerValue]\<rparr>"

definition set_status :: "ResponseBuilder \<Rightarrow> pystr \<Rightarrow> pystr \<Rightarrow> ResponseBuilder" where
  "set_status b statusCode statusMessage =
     b\<lparr>status := Some (S ''HTTP/1.1 '' @ statusCode @ S '' '' @ statusMessage)\<rparr>"

fun set_content :: "ResponseBuilder \<Rightarrow> content \<Rightarrow> py_error + ResponseBuilder" where
  "set_content b (Bytes bs) = Inr (b\<lparr>content := Bytes bs\<rparr>)"
| "set_content b (Text s) = and_then (encode s) (\<lambda>bs. Inr (b\<lparr>content := Bytes bs\<rparr>))"

text \<open>\<open>f"{v}"\<close> of an optional string: \<open>None\<close> prints as \<open>None\<close>.\<close>

definition format_opt :: "pystr option \<Rightarrow> pystr" where
  "format_opt v = (case v of None \<Rightarrow> S ''None'' | Some s \<Rightarrow> s)"

text \<open>\<open>len(self.content)\<close>\<close>

definition content_len :: "content \<Rightarrow> nat" where
  "content_len c = (case c of Text s \<Rightarrow> length s | Bytes bs \<Rightarrow> length bs)"

text \<open>
  The first half of \<open>build\<close>: the four \<open>add_header\<close> calls. \<open>now\<close> is
  \<open>str(datetime.datetime.now())\<close>. A \<open>bytes\<close> object never compares equal to \<open>""\<close>.
\<close>

definition build_headers :: "pystr \<Rightarrow> ResponseBuilder \<Rightarrow> ResponseBuilder" where
  "build_headers now b =
     (let b = add_header b (S ''Date: '') now in
      if content b = Text [] then
        (let b = add_header b (S ''Content-Type: '') (S ''text/plain'');
             b = add_header b (S ''Content-Length: '') (str_nat 0)
         in add_header b (S ''Server: '') (S ''Jacks HTTP server''))
      else
        (let b = add_header b (S ''Content-Type: '') (format_opt (content_type b));
             b = add_header b (S ''Content-Length: '') (str_nat (content_len (content b)))
         in add_header b (S ''Server: '') (S ''Jacks HTTP server'')))"

text \<open>
  The second half: the message. \<open>self.status + NEWLINE\<close> raises \<open>TypeError\<close> while the
  status is \<open>None\<close>.
\<close>

definition render :: "ResponseBuilder \<Rightarrow> py_error + pybytes" where
  "render b =
     (let hs = join NEWLINE (headers b) @ NEWLINE in
      case content b of
        Bytes bs \<Rightarrow>
          (case status b of
             None \<Rightarrow> Inl TypeError
           | Some st \<Rightarrow>
               and_then (encode (st @ NEWLINE @ hs @ NEWLINE))
                 (\<lambda>head. Inr (head @ bs @ utf8 NEWLINE)))
      | Text s \<Rightarrow>
          (case status b of
             None \<Rightarrow> Inl TypeError
           | Some st \<Rightarrow> encode (st @ NEWLINE @ hs @ NEWLINE @ s @ NEWLINE)))"

text \<open>\<open>build\<close> returns the builder as it leaves it, and the message or the exception.\<close>

definition build :: "pystr \<Rightarrow> ResponseBuilder \<Rightarrow> ResponseBuilder \<times> (py_error + pybytes)" where
  "build now b = (let b' = build_headers now b in (b', render b'))"

section \<open>The environment of a request\<close>

text \<open>
  What the handlers read from outside the program: the file system as \<open>os.stat\<close> and
  \<open>open\<close> see it, the codec of the locale (text mode decodes with it), the printed
  \<open>datetime.datetime.now()\<close> and \<open>urllib.parse.unquote\<close>.
  \<open>may_open\<close> says whether the server process is allowed to open the file; it depends on
  the process owner and is independent of the bit for others in \<open>st_mode\<close>.
\<close>

datatype fkind = Regular pybytes | Directory

record fnode =
  st_mode :: nat
  may_open :: bool
  kind :: fkind

record world =
  stat :: "pystr \<Rightarrow> fnode option"
  locale_decode :: "pybytes \<Rightarrow> pystr option"
  clock :: pystr
  unquote :: "pystr \<Rightarrow> pystr"

text \<open>\<open>os.path.exists\<close>\<close>

definition path_exists :: "world \<Rightarrow> pystr \<Rightarrow> bool" where
  "path_exists w p = (stat w p \<noteq> None)"

text \<open>\<open>open(p, 'rb').read()\<close>\<close>

definition open_read_binary :: "world \<Rightarrow> pystr \<Rightarrow> py_error + pybytes" where
  "open_read_binary w p =
     (case stat w p of
        None \<Rightarrow> Inl FileNotFoundError
      | Some n \<Rightarrow>
          if \<not> may_open n then Inl PermissionError
          else (case kind n of Directory \<Rightarrow> Inl IsADirectoryError | Regular bs \<Rightarrow> Inr bs))"

text \<open>
  Text mode reads with universal newlines: \<open>"\r\n"\<close> and a lone \<open>"\r"\<close> both arrive as
  \<open>"\n"\<close>.
\<close>

fun universal_newlines :: "pystr \<Rightarrow> pystr" where
  "universal_newlines [] = []"
| "universal_newlines [c] = (if c = 13 then [10] else [c])"
| "universal_newlines (c # d # cs) =
     (if c = 13 \<and> d = 10 then 10 # universal_newlines cs
      else if c = 13 then 10 # universal_newlines (d # cs)
      else c # universal_newlines (d # cs))"

text \<open>\<open>open(p, 'r').read()\<close>\<close>

definition open_read_text :: "world \<Rightarrow> pystr \<Rightarrow> py_error + pystr" where
  "open_read_text w p =
     and_then (open_read_binary w p)
       (\<lambda>bs. case locale_decode w bs of
                None \<Rightarrow> Inl UnicodeDecodeError
              | Some s \<Rightarrow> Inr (universal_newlines s))"

section \<open>Module-level functions\<close>

text \<open>\<open>S_IROTH\<close> is \<open>0o004\<close>; \<open>&\<close> binds tighter than \<open>>\<close>.\<close>

definition S_IROTH :: nat where
  "S_IROTH = 4"

definition has_permission_other :: "world \<Rightarrow> pystr \<Rightarrow> py_error + bool" where
  "has_permission_other w file_name =
     (case stat w file_name of
        None \<Rightarrow> Inl FileNotFoundError
      | Some n \<Rightarrow> Inr (S_IROTH AND st_mode n > 0))"

definition binary_type_files :: "pystr list" where
  "binary_type_files = [S ''jpg'', S ''jpeg'', S ''png'', S ''mp3'']"

definition should_return_binary :: "pystr \<Rightarrow> bool" where
  "should_return_binary file_extension = (file_extension \<in> set binary_type_files)"

definition mime_types :: "(pystr \<times> pystr) list" where
  "mime_types =
     [(S ''html'', S ''text/html''),
      (S ''css'', S ''text/css''),
      (S ''jpeg'', S ''image/jpeg''),
      (S ''jpg'', S ''image/jpg''),
      (S ''js'', S ''text/javascript''),
      (S ''png'', S ''image/png''),
      (S ''mp3'', S ''audio/mpeg'')]"

text \<open>\<open>mime_types[file_extension] if file_extension is not None else "text/plain"\<close>\<close>

definition get_file_mime_type :: "pystr option \<Rightarrow> py_error + pystr" where
  "get_file_mime_type file_extension =
     (case file_extension of
        None \<Rightarrow> Inr (S ''text/plain'')
      | Some e \<Rightarrow> (case map_of mime_types e of None \<Rightarrow> Inl KeyError | Some m \<Rightarrow> Inr m))"

section \<open>HTTPServer\<close>

definition method_not_allowed :: "world \<Rightarrow> py_error + pybytes" where
  "method_not_allowed w =
     (let builder = set_status init (S ''405'') (S ''METHOD NOT ALLOWED'');
          allowed = join (S '', '') [S ''GET'', S ''POST''];
          builder = add_header builder (S ''Allow'') allowed;
          builder = add_header builder (S ''Connection'') (S ''close'')
      in snd (build (clock w) builder))"

definition resource_not_found :: "world \<Rightarrow> py_error + pybytes" where
  "resource_not_found w =
     (let builder = set_status init (S ''404'') (S ''RESOURCE NOT FOUND'');
          builder = add_header builder (S ''Connection'') (S ''close'');
          error_file = S ''./404.html''
      in and_then (open_read_text w error_file) (\<lambda>text.
         and_then (set_content builder (Text text)) (\<lambda>builder.
         snd (build (clock w) (builder\<lparr>content_type := Some (S ''text/html'')\<rparr>)))))"

definition resource_forbidden :: "world \<Rightarrow> py_error + pybytes" where
  "resource_forbidden w =
     (let builder = set_status init (S ''403'') (S ''RESOURCE FORBIDDEN'');
          builder = add_header builder (S ''Connection'') (S ''close'');
          error_file = S ''./403.html''
      in and_then (open_read_text w error_file) (\<lambda>text.
         and_then (set_content builder (Text text)) (\<lambda>builder.
         snd (build (clock w) (builder\<lparr>content_type := Some (S ''text/html'')\<rparr>)))))"

text \<open>
  Lines 162 to 164 of \<open>get_request\<close>, on the path already prefixed with \<open>"./"\<close>:
  \<open>file_extension = ""\<close>, replaced by \<open>requested_file.split(".")[2]\<close> when the path
  has a dot.
\<close>

definition file_extension_of :: "pystr \<Rightarrow> py_error + pystr" where
  "file_extension_of requested_file =
     (if find_char requested_file 46 \<noteq> -1
      then index (split (S ''.'') requested_file) 2
      else Inr [])"

definition get_request :: "world \<Rightarrow> pystr \<Rightarrow> pystr list \<Rightarrow> py_error + pybytes" where
  "get_request w requested_file data =
     (let requested_file = S ''./'' @ requested_file in
      if \<not> path_exists w requested_file then resource_not_found w
      else
        and_then (has_permission_other w requested_file) (\<lambda>permitted.
        if \<not> permitted then resource_forbidden w
        else
          and_then (file_extension_of requested_file) (\<lambda>file_extension.
          and_then
            (if should_return_binary file_extension
             then and_then (open_read_binary w requested_file) (\<lambda>bs. Inr (Bytes bs))
             else and_then (open_read_text w requested_file) (\<lambda>s. Inr (Text s)))
            (\<lambda>response_body.
          let builder = set_status init (S ''200'') (S ''OK'');
              builder = add_header builder (S ''Connection'') (S ''close'')
          in and_then (set_content builder response_body) (\<lambda>builder.
             and_then (get_file_mime_type (Some file_extension)) (\<lambda>mime.
             snd (build (clock w) (builder\<lparr>content_type := Some mime\<rparr>))))))))"

definition formatString :: "pystr \<Rightarrow> py_error + pystr" where
  "formatString stringToParse =
     (let splitString = split (S ''='') stringToParse
      in and_then (index splitString 1) (\<lambda>event. Inr (replace_char 43 32 event)))"

text \<open>The pieces of the HTML literal of \<open>post_request\<close>, between the eight values.\<close>

definition html_0 :: pystr where
  "html_0 =
     S ''<html>\<newline>'' @
     S ''                        <style>\<newline>'' @
     S ''                        table, th, td {\<newline>'' @
     S ''                          border:1px solid black;\<newline>'' @
     S ''                        }\<newline>'' @
     S ''                        </style>\<newline>'' @
     S ''                        <body>\<newline>'' @
     S ''\<newline>'' @
     S ''                        <table style='' @ [34] @ S ''width:100%'' @ [34] @ S ''>\<newline>'' @
     S ''                          <tr>\<newline>'' @
     S ''                            <th>event</th>\<newline>'' @
     S ''                            <th>''"

definition html_1 :: pystr where
  "html_1 =
     S ''</th>\<newline>'' @
     S ''                          </tr>\<newline>'' @
     S ''                          <tr>\<newline>'' @
     S ''                            <th>day</th>\<newline>'' @
     S ''                            <th>''"

definition html_2 :: pystr where
  "html_2 =
     S ''</th>\<newline>'' @
     S ''                          </tr>\<newline>'' @
     S ''                          <tr>\<newline>'' @
     S ''                            <th>start</th>\<newline>'' @
     S ''                            <th>''"

definition html_3 :: pystr where
  "html_3 =
     S ''</th>\<newline>'' @
     S ''                          </tr>\<newline>'' @
     S ''                          <tr>\<newline>'' @
     S ''                            <th>end</th>\<newline>'' @
     S ''                            <th>''"

definition html_4 :: pystr where
  "html_4 =
     S ''</th>\<newline>'' @
     S ''                          </tr>\<newline>'' @
     S ''                          <tr>\<newline>'' @
     S ''                            <th>phone</th>\<newline>'' @
     S ''                            <th>''"

definition html_5 :: pystr where
  "html_5 =
     S ''</th>\<newline>'' @
     S ''                          </tr>\<newline>'' @
     S ''                          <tr>\<newline>'' @
     S ''                            <th>location</th>\<newline>'' @
     S ''                            <th>''"

definition html_6 :: pystr where
  "html_6 =
     S ''</th>\<newline>'' @
     S ''                          <tr>\<newline>'' @
     S ''                            <th>info</th>\<newline>'' @
     S ''                            <th>''"

definition html_7 :: pystr where
  "html_7 =
     S ''</th>\<newline>'' @
     S ''                          <tr>\<newline>'' @
     S ''                            <th>url</th>\<newline>'' @
     S ''                            <th>''"

definition html_8 :: pystr where
  "html_8 =
     S ''</th>\<newline>'' @
     S ''                        </table>\<newline>'' @
     S ''\<newline>'' @
     S ''                        </body>\<newline>'' @
     S ''                        </html>\<newline>'' @
     S ''                        ''"

text \<open>\<open>self.formatString(usefulStrings[i])\<close>\<close>

definition field_value :: "pystr list \<Rightarrow> nat \<Rightarrow> py_error + pystr" where
  "field_value usefulStrings i = and_then (index usefulStrings i) formatString"

definition post_request :: "world \<Rightarrow> pystr \<Rightarrow> pystr list \<Rightarrow> py_error + pybytes" where
  "post_request w requested_file data =
     and_then (index_last data) (\<lambda>usefulString.
     let usefulString = unquote w usefulString;
         usefulStrings = split (S ''&'') usefulString
     in and_then (field_value usefulStrings 0) (\<lambda>v0.
        and_then (field_value usefulStrings 1) (\<lambda>v1.
        and_then (field_value usefulStrings 2) (\<lambda>v2.
        and_then (field_value usefulStrings 3) (\<lambda>v3.
        and_then (field_value usefulStrings 4) (\<lambda>v4.
        and_then (field_value usefulStrings 5) (\<lambda>v5.
        and_then (field_value usefulStrings 6) (\<lambda>v6.
        and_then (field_value usefulStrings 7) (\<lambda>v7.
        let html = html_0 @ v0 @ html_1 @ v1 @ html_2 @ v2 @ html_3 @ v3 @ html_4 @ v4 @
                   html_5 @ v5 @ html_6 @ v6 @ html_7 @ v7 @ html_8;
            builder = set_status init (S ''200'') (S ''OK'');
            builder = add_header builder (S ''Connection'') (S ''close'')
        in and_then (set_content builder (Text html)) (\<lambda>builder.
           snd (build (clock w) (builder\<lparr>content_type := Some (S ''text/html'')\<rparr>))))))))))))"

text \<open>
  \<open>process_response\<close>: \<open>None\<close> is the bare \<open>return\<close> of the empty request line.
\<close>

definition returning :: "py_error + 'a \<Rightarrow> py_error + 'a option" where
  "returning m = and_then m (\<lambda>x. Inr (Some x))"

definition process_response :: "world \<Rightarrow> pystr \<Rightarrow> py_error + pybytes option" where
  "process_response w request =
     (let formatted_data = split NEWLINE (strip request) in
      and_then (index formatted_data 0) (\<lambda>first_line.
      let request_words = split_ws first_line in
      if length request_words = 0 then Inr None
      else
        and_then (index request_words 1) (\<lambda>target.
        let requested_file = drop 1 target in
        and_then (index request_words 0) (\<lambda>method.
        if method = S ''GET'' then returning (get_request w requested_file formatted_data)
        else if method = S ''POST'' then returning (post_request w requested_file formatted_data)
        else returning (method_not_allowed w)))))"

section \<open>Sequences of calls on a builder\<close>

text \<open>
  The methods of \<open>ResponseBuilder\<close> and the assignment to \<open>content_type\<close> the handlers
  make, as values, so that a property can speak of every builder these calls produce
  from \<open>ResponseBuilder()\<close>.
\<close>

datatype builder_call =
    Add_header pystr pystr
  | Set_status pystr pystr
  | Set_content content
  | Assign_content_type "pystr option"

fun call :: "ResponseBuilder \<Rightarrow> builder_call \<Rightarrow> py_error + ResponseBuilder" where
  "call b (Add_header k v) = Inr (add_header b k v)"
| "call b (Set_status c m) = Inr (set_status b c m)"
| "call b (Set_content c) = set_content b c"
| "call b (Assign_content_type t) = Inr (b\<lparr>content_type := t\<rparr>)"

fun calls :: "ResponseBuilder \<Rightarrow> builder_call list \<Rightarrow> py_error + ResponseBuilder" where
  "calls b [] = Inr b"
| "calls b (c # cs) = and_then (call b c) (\<lambda>b'. calls b' cs)"

text \<open>The octets \<open>build\<close> places after the blank line.\<close>

definition body_of :: "content \<Rightarrow> pybytes" where
  "body_of c = (case c of Text s \<Rightarrow> utf8 s | Bytes bs \<Rightarrow> bs)"

text \<open>What \<open>self.content\<close> can hold: the initial \<open>""\<close> or the \<open>bytes\<close> of \<open>set_content\<close>.\<close>

definition stored :: "content \<Rightarrow> bool" where
  "stored c = (case c of Text s \<Rightarrow> s = [] | Bytes bs \<Rightarrow> True)"

text \<open>The calls of \<open>set_content\<close>.\<close>

fun sets_content :: "builder_call \<Rightarrow> bool" where
  "sets_content (Set_content c) = True"
| "sets_content c = False"

section \<open>Notions the claims use\<close>

text \<open>
  The number of dots in a request target, and the text after its last dot (the last piece
  of the target split on \<open>"."\<close>).
\<close>

definition dots :: "pystr \<Rightarrow> nat" where
  "dots target = count_list target 46"

definition last_segment :: "pystr \<Rightarrow> pystr" where
  "last_segment target = last (split (S ''.'') target)"

section \<open>The page of post_request, row by row\<close>

text \<open>
  The HTML literal of \<open>post_request\<close> read as a table: the text before the first row, a
  row (a label cell and a value cell), the text between two rows (with and without the
  closing \<open></tr>\<close>, as the literal has it) and the text after the last row. A well-formed
  body line carries the eight fields in order; a plain value has no \<open>&\<close> and no \<open>=\<close>.
\<close>

definition page_head :: pystr where
  "page_head =
     S ''<html>\<newline>'' @
     S ''                        <style>\<newline>'' @
     S ''                        table, th, td {\<newline>'' @
     S ''                          border:1px solid black;\<newline>'' @
     S ''                        }\<newline>'' @
     S ''                        </style>\<newline>'' @
     S ''                        <body>\<newline>'' @
     S ''\<newline>'' @
     S ''                        <table style='' @ [34] @ S ''width:100%'' @ [34] @ S ''>\<newline>'' @
     S ''                          <tr>\<newline>'' @
     S ''                            ''"

definition table_row :: "pystr \<Rightarrow> pystr \<Rightarrow> pystr" where
  "table_row label v =
     S ''<th>'' @ label @ S ''</th>\<newline>'' @
     S ''                            <th>'' @ v @ S ''</th>''"

definition row_gap_closed :: pystr where
  "row_gap_closed =
     S ''\<newline>'' @
     S ''                          </tr>\<newline>'' @
     S ''                          <tr>\<newline>'' @
     S ''                            ''"

definition row_gap_open :: pystr where
  "row_gap_open =
     S ''\<newline>'' @
     S ''                          <tr>\<newline>'' @
     S ''                            ''"

definition page_tail :: pystr where
  "page_tail =
     S ''\<newline>'' @
     S ''                        </table>\<newline>'' @
     S ''\<newline>'' @
     S ''                        </body>\<newline>'' @
     S ''                        </html>\<newline>'' @
     S ''                        ''"

definition plus_to_space :: "pystr \<Rightarrow> pystr" where
  "plus_to_space v = replace_char 43 32 v"

definition form_page :: "pystr list \<Rightarrow> pystr" where
  "form_page vs =
     page_head @
     table_row (S ''event'') (plus_to_space (vs ! 0)) @ row_gap_closed @
     table_row (S ''day'') (plus_to_space (vs ! 1)) @ row_gap_closed @
     table_row (S ''start'') (plus_to_space (vs ! 2)) @ row_gap_closed @
     table_row (S ''end'') (plus_to_space (vs ! 3)) @ row_gap_closed @
     table_row (S ''phone'') (plus_to_space (vs ! 4)) @ row_gap_closed @
     table_row (S ''location'') (plus_to_space (vs ! 5)) @ row_gap_open @
     table_row (S ''info'') (plus_to_space (vs ! 6)) @ row_gap_open @
     table_row (S ''url'') (plus_to_space (vs ! 7)) @
     page_tail"

definition form_line :: "pystr list \<Rightarrow> pystr" where
  "form_line vs =
     join (S ''&'')
       [S ''event='' @ vs ! 0, S ''day='' @ vs ! 1, S ''start='' @ vs ! 2, S ''end='' @ vs ! 3,
        S ''phone='' @ vs ! 4, S ''location='' @ vs ! 5, S ''info='' @ vs ! 6, S ''url='' @ vs ! 7]"

definition plain_value :: "pystr \<Rightarrow> bool" where
  "plain_value v = (38 \<notin> set v \<and> 61 \<notin> set v \<and> encodable v)"

text \<open>The parsed lines of two POST requests: two fields only, and all eight.\<close>

definition short_form :: "pystr list" where
  "short_form = [S ''POST /form HTTP/1.1'', [], S ''event=a&day=b'']"

definition full_form :: "pystr list" where
  "full_form = [S ''POST /form HTTP/1.1'', [],
     S ''event=Team+lunch&day=Friday&start=12&end=13&phone=5551234&location=Room+2&info=none&url=x'']"

text \<open>The values of the eight-field request, as the body line carries them.\<close>

definition full_values :: "pystr list" where
  "full_values = [S ''Team+lunch'', S ''Friday'', S ''12'', S ''13'', S ''5551234'', S ''Room+2'',
                  S ''none'', S ''x'']"

text \<open>
  A serving directory: the error page, a page only owner and group may read (mode
  \<open>0o770\<close>), an image, and two text files (mode \<open>0o644\<close>).
\<close>

definition site_files :: "pystr \<Rightarrow> fnode option" where
  "site_files p =
     (if p = S ''./403.html'' then
        Some \<lparr>st_mode = 420, may_open = True, kind = Regular (utf8 (S ''<h1>Forbidden</h1>''))\<rparr>
      else if p = S ''./secret.html'' then
        Some \<lparr>st_mode = 504, may_open = True, kind = Regular (utf8 (S ''top''))\<rparr>
      else if p = S ''./photo.png'' then
        Some \<lparr>st_mode = 420, may_open = True, kind = Regular [137, 80, 78, 71, 13, 10, 26, 10]\<rparr>
      else if p = S ''./notes.txt'' then
        Some \<lparr>st_mode = 420, may_open = True, kind = Regular (utf8 (S ''hello''))\<rparr>
      else if p = S ''./README'' then
        Some \<lparr>st_mode = 420, may_open = True, kind = Regular (utf8 (S ''hello''))\<rparr>
      else None)"

text \<open>
  A serving directory with names of more than one dot: \<open>a.html.png\<close> holds \<open>P\<close>, CR, LF;
  \<open>my.photo.png\<close> holds the first octets of a PNG file; \<open>empty.html\<close> is empty.
\<close>

definition dotted_files :: "pystr \<Rightarrow> fnode option" where
  "dotted_files p =
     (if p = S ''./a.html.png'' then
        Some \<lparr>st_mode = 420, may_open = True, kind = Regular [80, 13, 10]\<rparr>
      else if p = S ''./my.photo.png'' then
        Some \<lparr>st_mode = 420, may_open = True, kind = Regular [137, 80, 78, 71]\<rparr>
      else if p = S ''./empty.html'' then
        Some \<lparr>st_mode = 420, may_open = True, kind = Regular []\<rparr>
      else None)"

section \<open>Example environments\<close>

text \<open>
  A codec that decodes ASCII octets and rejects others (every ASCII-compatible locale
  codec agrees with it on ASCII files), a fixed clock reading, and \<open>unquote\<close> on strings
  without \<open>%\<close>, which it returns unchanged.
\<close>

definition ascii_decode :: "pybytes \<Rightarrow> pystr option" where
  "ascii_decode bs = (if list_all (\<lambda>b. unat b < 128) bs then Some (map unat bs) else None)"

definition example_world :: "(pystr \<Rightarrow> fnode option) \<Rightarrow> world" where
  "example_world files =
     \<lparr>stat = files, locale_decode = ascii_decode, clock = S ''2024-01-01 12:00:00.000000'',
      unquote = (\<lambda>s. s)\<rparr>"

text \<open>An empty serving directory.\<close>

definition no_files :: "pystr \<Rightarrow> fnode option" where
  "no_files p = None"

text \<open>
  \<open>urllib.parse.unquote\<close> on a string whose escapes are all below \<open>%80\<close>: \<open>%\<close> followed by
  two hexadecimal digits (of either case) becomes the character of that code; a \<open>%\<close> that
  two hexadecimal digits do not follow stays as it is.
\<close>

definition hex_value :: "nat \<Rightarrow> nat option" where
  "hex_value c =
     (if 48 \<le> c \<and> c \<le> 57 then Some (c - 48)
      else if 65 \<le> c \<and> c \<le> 70 then Some (c - 55)
      else if 97 \<le> c \<and> c \<le> 102 then Some (c - 87)
      else None)"

fun unquote_ascii :: "pystr \<Rightarrow> pystr" where
  "unquote_ascii (c # h # l # rest) =
     (if c = 37 then
        (case hex_value h of
           None \<Rightarrow> c # unquote_ascii (h # l # rest)
         | Some a \<Rightarrow>
             (case hex_value l of
                None \<Rightarrow> c # unquote_ascii (h # l # rest)
              | Some b \<Rightarrow> (16 * a + b) # unquote_ascii rest))
      else c # unquote_ascii (h # l # rest))"
| "unquote_ascii s = s"

text \<open>The environment with this \<open>unquote\<close>, an empty serving directory and a fixed clock.\<close>

definition decoding_world :: world where
  "decoding_world =
     \<lparr>stat = no_files, locale_decode = ascii_decode, clock = S ''2024-01-01 12:00:00.000000'',
      unquote = unquote_ascii\<rparr>"

text \<open>
  The parsed lines of two POST requests with the eight fields in order, whose \<open>event\<close>
  value holds an encoded \<open>&\<close> (\<open>%26\<close>) and an encoded \<open>=\<close> (\<open>%3D\<close>).
\<close>

definition ampersand_form :: "pystr list" where
  "ampersand_form = [S ''POST /form HTTP/1.1'', [],
     S ''event=a%26b&day=c&start=d&end=e&phone=f&location=g&info=h&url=i'']"

definition equals_form :: "pystr list" where
  "equals_form = [S ''POST /form HTTP/1.1'', [],
     S ''event=a%3Db&day=c&start=d&end=e&phone=f&location=g&info=h&url=i'']"

section \<open>Basic facts\<close>

lemma S_append [simp]: "S a @ S b = S (a @ b)"
  by (simp add: S_def)

lemma S_append_assoc [simp]: "S a @ S b @ x = S (a @ b) @ x"
  by (simp add: S_def)

lemma and_then_Inr [simp]: "and_then (Inr x) f = f x"
  by (simp add: and_then_def)

lemma and_then_Inl [simp]: "and_then (Inl e) f = Inl e"
  by (simp add: and_then_def)

lemma and_then_eq_Inr: "and_then m f = Inr y \<longleftrightarrow> (\<exists>x. m = Inr x \<and> f x = Inr y)"
  by (cases m) simp_all

lemma utf8_Nil [simp]: "utf8 [] = []"
  by (simp add: utf8_def)

lemma utf8_append [simp]: "utf8 (a @ b) = utf8 a @ utf8 b"
  by (simp add: utf8_def)

lemma encodable_Nil [simp]: "encodable []"
  by (simp add: encodable_def)

lemma encodable_append [simp]: "encodable (a @ b) = (encodable a \<and> encodable b)"
  by (simp add: encodable_def)

lemma encodable_Cons [simp]: "encodable (c # s) = (encodable_char c \<and> encodable s)"
  by (simp add: encodable_def)

lemma encode_eq_Inr: "encode s = Inr bs \<longleftrightarrow> encodable s \<and> bs = utf8 s"
  by (auto simp: encode_def)

lemma encodable_NEWLINE [simp]: "encodable NEWLINE"
  by (simp add: NEWLINE_def encodable_char_def)

lemma str_nat_0: "str_nat 0 = S ''0''"
  by (simp add: str_nat.simps S_def)

lemma set_content_stored: "set_content b c = Inr b' \<Longrightarrow> stored (content b')"
  by (cases c) (auto simp: stored_def and_then_eq_Inr)

lemma call_stored: "call b c = Inr b' \<Longrightarrow> stored (content b) \<Longrightarrow> stored (content b')"
  by (cases c) (auto simp: add_header_def set_status_def dest: set_content_stored)

lemma calls_stored: "calls b cs = Inr b' \<Longrightarrow> stored (content b) \<Longrightarrow> stored (content b')"
proof (induction cs arbitrary: b)
  case Nil
  then show ?case by simp
next
  case (Cons c cs)
  from Cons.prems(1) obtain b1 where c1: "call b c = Inr b1" and rest: "calls b1 cs = Inr b'"
    by (auto simp: and_then_eq_Inr)
  from call_stored[OF c1 Cons.prems(2)] have "stored (content b1)" .
  with Cons.IH[OF rest] show ?case by simp
qed

lemma init_stored: "stored (content init)"
  by (simp add: init_def stored_def)

lemma build_headers_fields:
  "status (build_headers now b) = status b"
  "content (build_headers now b) = content b"
  "content_type (build_headers now b) = content_type b"
  by (simp_all add: build_headers_def add_header_def Let_def)

lemma build_headers_lines:
  "headers (build_headers now b) =
     headers b @
     [S ''Date: '' @ S '': '' @ now,
      S ''Content-Type: '' @ S '': '' @
        (if content b = Text [] then S ''text/plain'' else format_opt (content_type b)),
      S ''Content-Length: '' @ S '': '' @
        (if content b = Text [] then str_nat 0 else str_nat (content_len (content b))),
      S ''Server: '' @ S '': '' @ S ''Jacks HTTP server'']"
  by (simp add: build_headers_def add_header_def Let_def)

lemma stored_content_len: "stored c \<Longrightarrow> content_len c = length (body_of c)"
  by (cases c) (simp_all add: stored_def content_len_def body_of_def)

lemma render_stored:
  assumes "stored (content b)" and "render b = Inr msg"
  shows "\<exists>st. status b = Some st \<and>
           msg = utf8 (st @ NEWLINE @ join NEWLINE (headers b) @ NEWLINE @ NEWLINE)
                 @ body_of (content b) @ utf8 NEWLINE"
  using assms
  by (cases "content b"; cases "status b")
     (auto simp: render_def stored_def body_of_def Let_def and_then_eq_Inr encode_eq_Inr)


lemma of_char_lt_256: "of_char c < (256::nat)"
  by (rule order_less_le_trans[OF _ order_refl]) (simp add: of_char_def)

lemma encodable_char_small: "c < 0xD800 \<Longrightarrow> encodable_char c"
  by (simp add: encodable_char_def)

lemma encodable_S [simp]: "encodable (S s)"
proof -
  have "encodable_char (of_char c)" for c
    by (rule encodable_char_small, rule order_less_trans[OF of_char_lt_256]) simp
  then show ?thesis by (simp add: encodable_def list_all_iff S_def)
qed

lemma encodable_str_nat [simp]: "encodable (str_nat n)"
proof (induction n rule: str_nat.induct)
  case (1 n)
  show ?case
  proof (cases "n < 10")
    case True
    then show ?thesis by (subst str_nat.simps) (simp add: encodable_char_def)
  next
    case False
    have "n mod 10 < 10" by simp
    then have "encodable_char (48 + n mod 10)" by (intro encodable_char_small) arith
    with False 1 show ?thesis by (subst str_nat.simps) simp
  qed
qed

lemma encodable_join: "encodable sep \<Longrightarrow> list_all encodable xs \<Longrightarrow> encodable (join sep xs)"
  by (induction sep xs rule: join.induct) simp_all

lemma join_snoc: "xs \<noteq> [] \<Longrightarrow> join sep (xs @ [x]) = join sep xs @ sep @ x"
  by (induction sep xs rule: join.induct) simp_all

lemma build_ok:
  assumes "status b = Some st" and "content b = Bytes bs" and "content_type b = Some ct"
    and "encodable st" and "list_all encodable (headers b)" and "encodable now" and "encodable ct"
  shows "snd (build now b) =
           Inr (utf8 (st @ NEWLINE @
                      join NEWLINE (headers b @
                        [S ''Date: : '' @ now,
                         S ''Content-Type: : '' @ ct,
                         S ''Content-Length: : '' @ str_nat (length bs),
                         S ''Server: : Jacks HTTP server'']) @ NEWLINE @ NEWLINE)
                @ bs @ utf8 NEWLINE)"
proof -
  let ?b' = "build_headers now b"
  have hs: "headers ?b' = headers b @
                        [S ''Date: : '' @ now,
                         S ''Content-Type: : '' @ ct,
                         S ''Content-Length: : '' @ str_nat (length bs),
                         S ''Server: : Jacks HTTP server'']"
    using assms(2,3) by (simp add: build_headers_lines format_opt_def content_len_def)
  have "list_all encodable (headers ?b')"
    unfolding hs using assms(5,6,7)
    by (simp only: list_all_append list.pred_inject encodable_append encodable_S
                   encodable_str_nat simp_thms)
  then have "encodable (join NEWLINE (headers ?b'))"
    by (intro encodable_join) simp_all
  then have "render ?b' = Inr (utf8 (st @ NEWLINE @ join NEWLINE (headers ?b') @ NEWLINE @ NEWLINE)
                @ bs @ utf8 NEWLINE)"
    using assms(1,2,4) by (simp add: render_def build_headers_fields encode_def Let_def)
  then show ?thesis by (simp add: build_def Let_def hs)
qed

section \<open>Content-Length\<close>

text \<open>
  C1. For every builder obtained from \<open>ResponseBuilder()\<close> by any sequence of calls, if
  \<open>build\<close> returns a message then the value written in the Content-Length line is the
  decimal count of the octets of the body placed in the message, and it is \<open>0\<close> when the
  body is empty. (The line is the one \<open>add_header("Content-Length: ", ...)\<close> appends.)
\<close>

theorem content_length_exact:
  assumes "calls init cs = Inr b" and "build now b = (b', Inr msg)"
  shows "\<exists>st ct. status b = Some st \<and>
           headers b' = headers b @
             [S ''Date: '' @ S '': '' @ now,
              S ''Content-Type: '' @ S '': '' @ ct,
              S ''Content-Length: '' @ S '': '' @ str_nat (length (body_of (content b))),
              S ''Server: '' @ S '': '' @ S ''Jacks HTTP server''] \<and>
           msg = utf8 (st @ NEWLINE @ join NEWLINE (headers b') @ NEWLINE @ NEWLINE)
                 @ body_of (content b) @ utf8 NEWLINE \<and>
           (body_of (content b) = [] \<longrightarrow>
              str_nat (length (body_of (content b))) = S ''0'')"
proof -
  have st: "stored (content b)"
    using calls_stored[OF assms(1) init_stored] .
  from assms(2) have b': "b' = build_headers now b" and r: "render b' = Inr msg"
    by (auto simp: build_def Let_def)
  have len: "(if content b = Text [] then str_nat 0 else str_nat (content_len (content b)))
               = str_nat (length (body_of (content b)))"
    using stored_content_len[OF st] by (auto simp: body_of_def)
  have st': "stored (content b')"
    using st by (simp add: b' build_headers_fields)
  from render_stored[OF st' r] obtain s where
    s: "status b' = Some s"
       "msg = utf8 (s @ NEWLINE @ join NEWLINE (headers b') @ NEWLINE @ NEWLINE)
                 @ body_of (content b') @ utf8 NEWLINE"
    by blast
  have hl: "headers b' = headers b @
             [S ''Date: '' @ S '': '' @ now,
              S ''Content-Type: '' @ S '': '' @
                (if content b = Text [] then S ''text/plain'' else format_opt (content_type b)),
              S ''Content-Length: '' @ S '': '' @ str_nat (length (body_of (content b))),
              S ''Server: '' @ S '': '' @ S ''Jacks HTTP server'']"
    unfolding b' build_headers_lines len ..
  have z: "body_of (content b) = [] \<longrightarrow> str_nat (length (body_of (content b))) = S ''0''"
    by (simp add: str_nat_0)
  from s hl z show ?thesis
    unfolding b' build_headers_fields by blast
qed


theorem content_length_exact_witness:
  "\<exists>b b' msg.
     calls init [Set_status (S ''200'') (S ''OK''), Add_header (S ''Connection'') (S ''close''),
                 Set_content (Text (S ''hi'')), Assign_content_type (Some (S ''text/plain''))]
       = Inr b \<and>
     build (S ''now'') b = (b', Inr msg) \<and>
     (\<exists>st ct. status b = Some st \<and>
           headers b' = headers b @
             [S ''Date: '' @ S '': '' @ S ''now'',
              S ''Content-Type: '' @ S '': '' @ ct,
              S ''Content-Length: '' @ S '': '' @ str_nat (length (body_of (content b))),
              S ''Server: '' @ S '': '' @ S ''Jacks HTTP server''] \<and>
           msg = utf8 (st @ NEWLINE @ join NEWLINE (headers b') @ NEWLINE @ NEWLINE)
                 @ body_of (content b) @ utf8 NEWLINE \<and>
           (body_of (content b) = [] \<longrightarrow>
              str_nat (length (body_of (content b))) = S ''0''))"
proof -
  define b where "b = \<lparr>headers = [S ''Connection: close''], status = Some (S ''HTTP/1.1 200 OK''),
                       content = Bytes (utf8 (S ''hi'')), content_type = Some (S ''text/plain'')\<rparr>"
  have c: "calls init [Set_status (S ''200'') (S ''OK''), Add_header (S ''Connection'') (S ''close''),
                 Set_content (Text (S ''hi'')), Assign_content_type (Some (S ''text/plain''))]
             = Inr b"
    by (simp add: b_def init_def set_status_def add_header_def encode_def)
  have "\<exists>msg. snd (build (S ''now'') b) = Inr msg"
    by (subst build_ok[where st = "S ''HTTP/1.1 200 OK''" and bs = "utf8 (S ''hi'')"
                        and ct = "S ''text/plain''"])
       (simp_all add: b_def)
  then obtain msg where "snd (build (S ''now'') b) = Inr msg" ..
  then have r: "build (S ''now'') b = (fst (build (S ''now'') b), Inr msg)"
    by (simp add: prod_eq_iff)
  from content_length_exact[OF c r] c r show ?thesis by blast
qed

section \<open>The header lines build appends\<close>

lemma call_keeps_content:
  "call b c = Inr b' \<Longrightarrow> \<not> sets_content c \<Longrightarrow> content b' = content b"
  by (cases c) (auto simp: add_header_def set_status_def)

lemma call_sets_Bytes:
  "call b c = Inr b' \<Longrightarrow> sets_content c \<Longrightarrow> \<exists>bs. content b' = Bytes bs"
  by (cases c; cases "case c of Set_content x \<Rightarrow> x")
     (auto simp: and_then_eq_Inr)

lemma call_Bytes_stays:
  "call b c = Inr b' \<Longrightarrow> \<exists>bs. content b = Bytes bs \<Longrightarrow> \<exists>bs. content b' = Bytes bs"
  by (cases "sets_content c") (auto dest: call_sets_Bytes call_keeps_content)

lemma calls_Bytes_stays:
  "calls b cs = Inr b' \<Longrightarrow> \<exists>bs. content b = Bytes bs \<Longrightarrow> \<exists>bs. content b' = Bytes bs"
proof (induction cs arbitrary: b)
  case Nil
  then show ?case by simp
next
  case (Cons c cs)
  from Cons.prems(1) obtain b1 where c1: "call b c = Inr b1" and rest: "calls b1 cs = Inr b'"
    by (auto simp: and_then_eq_Inr)
  from call_Bytes_stays[OF c1 Cons.prems(2)] Cons.IH[OF rest] show ?case by simp
qed

lemma calls_content:
  "calls b cs = Inr b' \<Longrightarrow>
     (if list_ex sets_content cs then \<exists>bs. content b' = Bytes bs else content b' = content b)"
proof (induction cs arbitrary: b)
  case Nil
  then show ?case by simp
next
  case (Cons c cs)
  from Cons.prems(1) obtain b1 where c1: "call b c = Inr b1" and rest: "calls b1 cs = Inr b'"
    by (auto simp: and_then_eq_Inr)
  show ?case
  proof (cases "sets_content c")
    case True
    from call_sets_Bytes[OF c1 True] calls_Bytes_stays[OF rest] True show ?thesis by simp
  next
    case False
    from call_keeps_content[OF c1 False] Cons.IH[OF rest] False show ?thesis by simp
  qed
qed

text \<open>
  C9. Every header line is to read \<open>Name: Value\<close>. The handlers call
  \<open>add_header("Connection", "close")\<close>, and \<open>add_header\<close> inserts the colon and the space;
  \<open>build\<close> passes \<open>"Date: "\<close>, \<open>"Content-Type: "\<close>, \<open>"Content-Length: "\<close> and
  \<open>"Server: "\<close> as names, so each of its four lines carries the separator twice. For
  every builder and clock reading, these are the lines it appends, and the Date line
  differs from the line \<open>add_header("Date", now)\<close> would give.
\<close>

theorem build_lines_double_colon:
  "headers (fst (build now b)) =
     headers b @
     [S ''Date: '' @ S '': '' @ now,
      S ''Content-Type: '' @ S '': '' @
        (if content b = Text [] then S ''text/plain'' else format_opt (content_type b)),
      S ''Content-Length: '' @ S '': '' @
        (if content b = Text [] then str_nat 0 else str_nat (content_len (content b))),
      S ''Server: '' @ S '': '' @ S ''Jacks HTTP server''] \<and>
   S ''Date: '' @ S '': '' @ now \<noteq> S ''Date'' @ S '': '' @ now"
proof -
  have "S ''Date: '' @ S '': '' @ now \<noteq> S ''Date'' @ S '': '' @ now"
  proof
    assume "S ''Date: '' @ S '': '' @ now = S ''Date'' @ S '': '' @ now"
    then have "length (S ''Date: '' @ S '': '' @ now) = length (S ''Date'' @ S '': '' @ now)"
      by (rule arg_cong)
    then show False by (simp add: S_def)
  qed
  then show ?thesis
    by (simp add: build_def Let_def build_headers_lines del: S_append S_append_assoc)
qed

text \<open>
  C8, amended. For every builder obtained from \<open>ResponseBuilder()\<close> by any sequence of
  calls whose body is empty, \<open>build\<close> writes \<open>0\<close> as Content-Length; it writes
  \<open>text/plain\<close> as Content-Type when \<open>set_content\<close> was never called, and the printed
  \<open>content_type\<close> of the builder when it was.
\<close>

theorem empty_content_headers:
  assumes "calls init cs = Inr b" and "body_of (content b) = []"
  shows "headers (fst (build now b)) =
     headers b @
     [S ''Date: '' @ S '': '' @ now,
      S ''Content-Type: '' @ S '': '' @
        (if list_ex sets_content cs then format_opt (content_type b) else S ''text/plain''),
      S ''Content-Length: '' @ S '': '' @ S ''0'',
      S ''Server: '' @ S '': '' @ S ''Jacks HTTP server'']"
proof -
  have st: "stored (content b)"
    using calls_stored[OF assms(1) init_stored] .
  have len: "content_len (content b) = 0"
    using stored_content_len[OF st] assms(2) by simp
  have c: "(content b = Text []) = (\<not> list_ex sets_content cs)"
    using calls_content[OF assms(1)] by (auto simp: init_def split: if_splits)
  show ?thesis
    by (simp add: build_def Let_def build_headers_lines len c str_nat_0)
qed

theorem empty_content_headers_witness:
  "headers (fst (build (S ''now'')
      (add_header (add_header (set_status init (S ''405'') (S ''METHOD NOT ALLOWED''))
         (S ''Allow'') (S ''GET, POST'')) (S ''Connection'') (S ''close'')))) =
   [S ''Allow: GET, POST'', S ''Connection: close'', S ''Date: : now'',
    S ''Content-Type: : text/plain'', S ''Content-Length: : 0'',
    S ''Server: : Jacks HTTP server'']"
proof -
  let ?cs = "[Set_status (S ''405'') (S ''METHOD NOT ALLOWED''),
              Add_header (S ''Allow'') (S ''GET, POST''),
              Add_header (S ''Connection'') (S ''close'')]"
  let ?b = "add_header (add_header (set_status init (S ''405'') (S ''METHOD NOT ALLOWED''))
         (S ''Allow'') (S ''GET, POST'')) (S ''Connection'') (S ''close'')"
  have c: "calls init ?cs = Inr ?b" by simp
  have e: "body_of (content ?b) = []"
    by (simp add: add_header_def set_status_def init_def body_of_def)
  from empty_content_headers[OF c e, of "S ''now''"] show ?thesis
    by (simp add: add_header_def set_status_def init_def)
qed

section \<open>The file extension in get_request\<close>

lemma split_Nil_ne [simp]: "split sep s \<noteq> []"
  by (induction sep s rule: split.induct) (auto simp: split.simps(2) split: list.splits)

lemma split_hit [simp]: "split [c] (c # xs) = [] # split [c] xs"
  by (simp add: split.simps(2))

lemma split_miss: "x \<noteq> c \<Longrightarrow> split [c] (x # xs) = (x # hd (split [c] xs)) # tl (split [c] xs)"
  by (cases "split [c] xs") (auto simp: split.simps(2))

lemma split_notin: "c \<notin> set p \<Longrightarrow> split [c] p = [p]"
  by (induction p) (auto simp: split_miss)

lemma split_append: "c \<notin> set p \<Longrightarrow> split [c] (p @ c # rest) = p # split [c] rest"
  by (induction p) (auto simp: split_miss)

lemma length_split: "length (split [c] s) = Suc (count_list s c)"
proof (induction s)
  case Nil
  then show ?case by simp
next
  case (Cons x s)
  have "length (tl (split [c] s)) = count_list s c"
    using Cons by simp
  then show ?case using Cons by (cases "x = c") (simp_all add: split_miss)
qed

lemma S_dot: "S ''.'' = [46]"
  by (simp add: S_def)

lemma S_dot_slash: "S ''./'' = [46, 47]"
  by (simp add: S_def)

lemma file_extension_of_target:
  "file_extension_of (S ''./'' @ target) =
     (if dots target = 0 then Inl IndexError else Inr (split (S ''.'') target ! 1))"
proof -
  let ?ps = "split [46] target"
  have len: "length ?ps = Suc (dots target)"
    by (simp add: length_split dots_def)
  have sp: "split [46] (46 # 47 # target) = [] # (47 # hd ?ps) # tl ?ps"
    by (simp add: split_miss)
  have "index ([] # (47 # hd ?ps) # tl ?ps) 2 =
          (if dots target = 0 then Inl IndexError else Inr (?ps ! 1))"
    using len by (cases ?ps) (auto simp: index_def nth_Cons' numeral_2_eq_2)
  moreover have "file_extension_of (S ''./'' @ target) = index (split [46] (46 # 47 # target)) 2"
    by (simp add: file_extension_of_def S_dot S_dot_slash find_char_def del: split_hit)
  ultimately show ?thesis
    by (simp only: sp S_dot)
qed

lemma last_segment_nth: "last_segment target = split (S ''.'') target ! dots target"
proof -
  have "length (split [46] target) = Suc (dots target)"
    by (simp add: length_split dots_def)
  then show ?thesis
    by (simp add: last_segment_def S_dot last_conv_nth)
qed

text \<open>
  C4, as stated, fails: the target \<open>a.b.html\<close> has exactly two dots, and index 2 of
  \<open>"./a.b.html".split(".")\<close> is \<open>b\<close>, not \<open>html\<close>.
\<close>

theorem extension_index_counterexample:
  "\<not> (\<forall>target. (file_extension_of (S ''./'' @ target) = Inr (last_segment target))
                 = (dots target = 2))"
proof
  assume a: "\<forall>target. (file_extension_of (S ''./'' @ target) = Inr (last_segment target))
                 = (dots target = 2)"
  have d: "dots (S ''a.b.html'') = 2"
    by (simp add: dots_def S_def)
  have s: "split [46] (S ''a.b.html'') = [S ''a'', S ''b'', S ''html'']"
    by (simp add: S_def split_miss)
  have "file_extension_of (S ''./'' @ S ''a.b.html'') = Inr (S ''b'')"
    unfolding file_extension_of_target using d s by (simp add: S_dot)
  moreover have "last_segment (S ''a.b.html'') = S ''html''"
    by (simp add: last_segment_def S_dot s)
  moreover have "S ''b'' \<noteq> S ''html''"
    by (simp add: S_def)
  ultimately show False using a d by (metis sum.inject(2))
qed

text \<open>
  C4, amended. The extension is index 2 of \<open>("./" + target).split(".")\<close>; the first dot
  of that path is the one of \<open>"./"\<close>. The piece taken is the text after the target's last
  dot exactly when the target has one dot, or has two or more dots and the piece
  between its first and second dot equals the text after its last dot (as in
  \<open>a.html.html\<close>). A target without a dot raises \<open>IndexError\<close>; a target with two or more
  dots gets the piece between its first and second dot, while the text after the last
  dot is the piece at index \<open>dots target\<close>.
\<close>

theorem extension_index:
  "((file_extension_of (S ''./'' @ target) = Inr (last_segment target)) =
      (dots target = 1 \<or>
       (2 \<le> dots target \<and> split (S ''.'') target ! 1 = split (S ''.'') target ! dots target))) \<and>
   (dots target = 0 \<longrightarrow> file_extension_of (S ''./'' @ target) = Inl IndexError) \<and>
   (dots target = 1 \<longrightarrow> file_extension_of (S ''./'' @ target) = Inr (last_segment target)) \<and>
   (2 \<le> dots target \<longrightarrow>
      file_extension_of (S ''./'' @ target) = Inr (split (S ''.'') target ! 1) \<and>
      last_segment target = split (S ''.'') target ! dots target)"
proof -
  have "dots target = 0 \<or> dots target = 1 \<or> 2 \<le> dots target"
    by arith
  then show ?thesis
    by (auto simp: file_extension_of_target last_segment_nth)
qed

theorem extension_index_witness:
  "dots (S ''index.html'') = 1 \<and>
   file_extension_of (S ''./'' @ S ''index.html'') = Inr (last_segment (S ''index.html'')) \<and>
   last_segment (S ''index.html'') = S ''html'' \<and>
   dots (S ''README'') = 0 \<and>
   file_extension_of (S ''./'' @ S ''README'') = Inl IndexError \<and>
   2 \<le> dots (S ''a.b.html'') \<and>
   file_extension_of (S ''./'' @ S ''a.b.html'') = Inr (split (S ''.'') (S ''a.b.html'') ! 1) \<and>
   file_extension_of (S ''./'' @ S ''a.b.html'') \<noteq> Inr (last_segment (S ''a.b.html'')) \<and>
   dots (S ''a.html.html'') = 2 \<and>
   file_extension_of (S ''./'' @ S ''a.html.html'') = Inr (last_segment (S ''a.html.html''))"
proof -
  have d1: "dots (S ''index.html'') = 1" by (simp add: dots_def S_def)
  have d0: "dots (S ''README'') = 0" by (simp add: dots_def S_def)
  have d2: "dots (S ''a.b.html'') = 2" by (simp add: dots_def S_def)
  have d3: "dots (S ''a.html.html'') = 2" by (simp add: dots_def S_def)
  have l: "last_segment (S ''index.html'') = S ''html''"
    by (simp add: last_segment_def S_def split_miss)
  have s2: "split (S ''.'') (S ''a.b.html'') = [S ''a'', S ''b'', S ''html'']"
    by (simp add: S_def split_miss)
  have s3: "split (S ''.'') (S ''a.html.html'') = [S ''a'', S ''html'', S ''html'']"
    by (simp add: S_def split_miss)
  have n2: "split (S ''.'') (S ''a.b.html'') ! 1 \<noteq> split (S ''.'') (S ''a.b.html'') ! 2"
    unfolding s2 by (simp add: S_def)
  have e3: "split (S ''.'') (S ''a.html.html'') ! 1 = split (S ''.'') (S ''a.html.html'') ! 2"
    by (simp add: s3)
  from extension_index[of "S ''index.html''"] extension_index[of "S ''README''"]
       extension_index[of "S ''a.b.html''"] extension_index[of "S ''a.html.html''"]
       d0 d1 d2 d3 l n2 e3
  show ?thesis by simp
qed

section \<open>The request line\<close>

text \<open>
  C10. \<open>request_words[1]\<close> is read before the method is looked at: a request whose first
  line has exactly one word raises \<open>IndexError\<close> and no response is returned, while the
  line without any word returns \<open>None\<close> through the explicit guard.
\<close>

theorem one_word_request_line:
  assumes "split NEWLINE (strip request) = first_line # rest"
  shows "(length (split_ws first_line) = 1 \<longrightarrow> process_response w request = Inl IndexError) \<and>
         (length (split_ws first_line) = 0 \<longrightarrow> process_response w request = Inr None)"
  using assms by (simp add: process_response_def index_def Let_def)

theorem one_word_request_line_witness:
  "split NEWLINE (strip (S ''GET'')) = [S ''GET''] \<and>
   length (split_ws (S ''GET'')) = 1 \<and>
   process_response (example_world no_files) (S ''GET'') = Inl IndexError"
proof -
  have s: "split NEWLINE (strip (S ''GET'')) = [S ''GET'']"
    by (simp add: S_def strip_def isspace_def NEWLINE_def split.simps(2))
  have l: "length (split_ws (S ''GET'')) = 1"
    by (simp add: S_def split_ws_def isspace_def)
  from one_word_request_line[OF s, of "example_world no_files"] s l show ?thesis by simp
qed

section \<open>post_request\<close>

lemma page_eq:
  "html_0 @ v0 @ html_1 @ v1 @ html_2 @ v2 @ html_3 @ v3 @ html_4 @ v4 @
   html_5 @ v5 @ html_6 @ v6 @ html_7 @ v7 @ html_8 =
   page_head @
     table_row (S ''event'') v0 @ row_gap_closed @
     table_row (S ''day'') v1 @ row_gap_closed @
     table_row (S ''start'') v2 @ row_gap_closed @
     table_row (S ''end'') v3 @ row_gap_closed @
     table_row (S ''phone'') v4 @ row_gap_closed @
     table_row (S ''location'') v5 @ row_gap_open @
     table_row (S ''info'') v6 @ row_gap_open @
     table_row (S ''url'') v7 @
     page_tail"
  by (simp add: html_0_def html_1_def html_2_def html_3_def html_4_def html_5_def html_6_def
        html_7_def html_8_def page_head_def table_row_def row_gap_closed_def row_gap_open_def
        page_tail_def)


lemma S_amp: "S ''&'' = [38]"
  by (simp add: S_def)

lemma S_eq: "S ''='' = [61]"
  by (simp add: S_def)

lemma split_join:
  "ps \<noteq> [] \<Longrightarrow> list_all (\<lambda>p. c \<notin> set p) ps \<Longrightarrow> split [c] (join [c] ps) = ps"
  by (induction "[c]" ps rule: join.induct) (simp_all add: split_notin split_append)

lemma formatString_error: "formatString s = Inl e \<Longrightarrow> e = IndexError"
  by (auto simp: formatString_def Let_def index_def and_then_def split: if_splits)

lemma field_value_error: "field_value xs i = Inl e \<Longrightarrow> e = IndexError"
  by (auto simp: field_value_def index_def and_then_def dest: formatString_error
           split: if_splits)

lemma field_value_out: "length xs \<le> i \<Longrightarrow> field_value xs i = Inl IndexError"
  by (simp add: field_value_def index_def)

lemma and_then_field:
  "(\<And>v. f v = Inl IndexError) \<Longrightarrow> and_then (field_value xs i) f = Inl IndexError"
  by (cases "field_value xs i") (auto dest: field_value_error)

lemma post_request_short:
  assumes "length (split (S ''&'') (unquote w (last data))) < 8"
  shows "post_request w target data = Inl IndexError"
proof (cases "data = []")
  case True
  then show ?thesis by (simp add: post_request_def index_last_def)
next
  case False
  let ?xs = "split (S ''&'') (unquote w (last data))"
  have f7: "field_value ?xs 7 = Inl IndexError"
    using assms by (intro field_value_out) simp
  have "and_then (field_value ?xs 0) (\<lambda>v0.
        and_then (field_value ?xs 1) (\<lambda>v1.
        and_then (field_value ?xs 2) (\<lambda>v2.
        and_then (field_value ?xs 3) (\<lambda>v3.
        and_then (field_value ?xs 4) (\<lambda>v4.
        and_then (field_value ?xs 5) (\<lambda>v5.
        and_then (field_value ?xs 6) (\<lambda>v6.
        and_then (field_value ?xs 7) (\<lambda>v7. g v0 v1 v2 v3 v4 v5 v6 v7)))))))) = Inl IndexError"
    for g :: "pystr \<Rightarrow> pystr \<Rightarrow> pystr \<Rightarrow> pystr \<Rightarrow> pystr \<Rightarrow> pystr \<Rightarrow> pystr \<Rightarrow> pystr \<Rightarrow> py_error + pybytes"
    by (rule and_then_field, rule and_then_field, rule and_then_field, rule and_then_field,
        rule and_then_field, rule and_then_field, rule and_then_field) (simp add: f7)
  then show ?thesis
    using False by (simp add: post_request_def index_last_def Let_def)
qed

lemma formatString_pair:
  assumes "61 \<notin> set k" and "61 \<notin> set v"
  shows "formatString (k @ 61 # v) = Inr (replace_char 43 32 v)"
proof -
  have "split [61] (k @ 61 # v) = [k, v]"
    using assms by (simp add: split_append split_notin)
  then show ?thesis
    by (simp add: formatString_def S_eq Let_def index_def)
qed

lemma formatString_field:
  assumes "61 \<notin> set (S key)" and "61 \<notin> set v"
  shows "formatString (S (key @ ''='') @ v) = Inr (plus_to_space v)"
proof -
  have "S (key @ ''='') @ v = S key @ 61 # v"
    by (simp add: S_def)
  then show ?thesis
    using formatString_pair[OF assms] by (simp add: plus_to_space_def)
qed

text \<open>
  C7, as stated, fails: a body line with two fields makes \<open>usefulStrings[2]\<close> raise
  \<open>IndexError\<close>; the source defines no error for a malformed form body and builds no
  400 response.
\<close>

theorem short_form_counterexample:
  "length (split (S ''&'') (last short_form)) < 8 \<and>
   post_request (example_world no_files) (S ''form'') short_form = Inl IndexError"
proof -
  have l: "split (S ''&'') (last short_form) = [S ''event=a'', S ''day=b'']"
    by (simp add: short_form_def S_def split_miss)
  have "length (split (S ''&'') (unquote (example_world no_files) (last short_form))) < 8"
    by (simp add: example_world_def l)
  from post_request_short[OF this] l show ?thesis by simp
qed

text \<open>
  C7, amended. Whenever the decoded body line has fewer than eight pieces between
  \<open>&\<close>, \<open>post_request\<close> raises \<open>IndexError\<close> (from \<open>usefulStrings[i]\<close>, or earlier from
  \<open>splitString[1]\<close> on a piece without \<open>=\<close>) and returns no response.
\<close>

theorem short_form_raises:
  "length (split (S ''&'') (unquote w (last data))) < 8 \<Longrightarrow>
     post_request w target data = Inl IndexError"
  by (rule post_request_short)

theorem short_form_raises_witness:
  "length (split (S ''&'') (unquote (example_world no_files) (last [S ''event=a'']))) < 8 \<and>
   post_request (example_world no_files) (S ''form'') [S ''event=a''] = Inl IndexError"
proof -
  have l: "length (split (S ''&'') (unquote (example_world no_files) (last [S ''event=a'']))) < 8"
    by (simp add: example_world_def S_def split_miss)
  from short_form_raises[OF l] l show ?thesis by simp
qed

section \<open>The page for a well-formed form\<close>

lemma encodable_plus_to_space: "encodable v \<Longrightarrow> encodable (plus_to_space v)"
  by (induction v) (auto simp: plus_to_space_def replace_char_def encodable_char_def)

lemma encodable_html:
  "encodable html_0" "encodable html_1" "encodable html_2" "encodable html_3" "encodable html_4"
  "encodable html_5" "encodable html_6" "encodable html_7" "encodable html_8"
  by (simp_all add: html_0_def html_1_def html_2_def html_3_def html_4_def html_5_def
        html_6_def html_7_def html_8_def encodable_char_def
        del: S_append S_append_assoc)

lemma respond:
  assumes "encodable code" and "encodable reason" and "encodable now" and "encodable ct"
  shows "snd (build now
           ((add_header (set_status init code reason) (S ''Connection'') (S ''close''))
              \<lparr>content := Bytes body, content_type := Some ct\<rparr>)) =
         Inr (utf8 (S ''HTTP/1.1 '' @ code @ S '' '' @ reason @ NEWLINE @
                    join NEWLINE
                      [S ''Connection: close'', S ''Date: : '' @ now,
                       S ''Content-Type: : '' @ ct,
                       S ''Content-Length: : '' @ str_nat (length body),
                       S ''Server: : Jacks HTTP server''] @ NEWLINE @ NEWLINE)
              @ body @ utf8 NEWLINE)"
  by (subst build_ok[where st = "S ''HTTP/1.1 '' @ code @ S '' '' @ reason" and bs = body
                      and ct = ct])
     (simp_all add: add_header_def set_status_def init_def assms)

lemma post_request_fields:
  assumes "data \<noteq> []"
    and "split (S ''&'') (unquote w (last data)) = [f0, f1, f2, f3, f4, f5, f6, f7]"
    and "formatString f0 = Inr v0" and "formatString f1 = Inr v1"
    and "formatString f2 = Inr v2" and "formatString f3 = Inr v3"
    and "formatString f4 = Inr v4" and "formatString f5 = Inr v5"
    and "formatString f6 = Inr v6" and "formatString f7 = Inr v7"
    and "encodable v0" "encodable v1" "encodable v2" "encodable v3"
        "encodable v4" "encodable v5" "encodable v6" "encodable v7"
    and "encodable (clock w)"
  shows "post_request w target data =
         Inr (utf8 (S ''HTTP/1.1 200 OK'' @ NEWLINE @
                    join NEWLINE
                      [S ''Connection: close'', S ''Date: : '' @ clock w,
                       S ''Content-Type: : text/html'',
                       S ''Content-Length: : '' @ str_nat (length (utf8
                         (html_0 @ v0 @ html_1 @ v1 @ html_2 @ v2 @ html_3 @ v3 @ html_4 @ v4 @
                          html_5 @ v5 @ html_6 @ v6 @ html_7 @ v7 @ html_8))),
                       S ''Server: : Jacks HTTP server''] @ NEWLINE @ NEWLINE)
              @ utf8 (html_0 @ v0 @ html_1 @ v1 @ html_2 @ v2 @ html_3 @ v3 @ html_4 @ v4 @
                      html_5 @ v5 @ html_6 @ v6 @ html_7 @ v7 @ html_8) @ utf8 NEWLINE)"
proof -
  let ?h = "html_0 @ v0 @ html_1 @ v1 @ html_2 @ v2 @ html_3 @ v3 @ html_4 @ v4 @
            html_5 @ v5 @ html_6 @ v6 @ html_7 @ v7 @ html_8"
  have "encodable ?h"
    using assms(11-18) by (simp add: encodable_html)
  then have enc: "encode ?h = Inr (utf8 ?h)"
    by (simp only: encode_def if_True)
  have st: "S ''HTTP/1.1 '' @ S ''200'' @ S '' '' @ S ''OK'' @ NEWLINE = S ''HTTP/1.1 200 OK'' @ NEWLINE"
    by simp
  have r: "snd (build (clock w)
           ((add_header (set_status init (S ''200'') (S ''OK'')) (S ''Connection'') (S ''close''))
              \<lparr>content := Bytes (utf8 ?h), content_type := Some (S ''text/html'')\<rparr>)) =
         Inr (utf8 (S ''HTTP/1.1 200 OK'' @ NEWLINE @
                    join NEWLINE
                      [S ''Connection: close'', S ''Date: : '' @ clock w,
                       S ''Content-Type: : text/html'',
                       S ''Content-Length: : '' @ str_nat (length (utf8 ?h)),
                       S ''Server: : Jacks HTTP server''] @ NEWLINE @ NEWLINE)
              @ utf8 ?h @ utf8 NEWLINE)"
    using respond[of "S ''200''" "S ''OK''" "clock w" "S ''text/html''" "utf8 ?h",
                  OF encodable_S encodable_S assms(19) encodable_S]
    by (simp only: S_append S_append_assoc append_Cons append_Nil)
  have il: "index_last data = Inr (last data)"
    using assms(1) by (simp add: index_last_def)
  have fv: "field_value [f0, f1, f2, f3, f4, f5, f6, f7] 0 = Inr v0"
           "field_value [f0, f1, f2, f3, f4, f5, f6, f7] 1 = Inr v1"
           "field_value [f0, f1, f2, f3, f4, f5, f6, f7] 2 = Inr v2"
           "field_value [f0, f1, f2, f3, f4, f5, f6, f7] 3 = Inr v3"
           "field_value [f0, f1, f2, f3, f4, f5, f6, f7] 4 = Inr v4"
           "field_value [f0, f1, f2, f3, f4, f5, f6, f7] 5 = Inr v5"
           "field_value [f0, f1, f2, f3, f4, f5, f6, f7] 6 = Inr v6"
           "field_value [f0, f1, f2, f3, f4, f5, f6, f7] 7 = Inr v7"
    using assms(3-10) by (simp_all add: field_value_def index_def)
  show ?thesis
    by (simp only: post_request_def il and_then_Inr Let_def assms(2) fv set_content.simps enc r)
qed


lemma form_line_split:
  assumes "list_all plain_value [e0, e1, e2, e3, e4, e5, e6, e7]"
  shows "split (S ''&'') (form_line [e0, e1, e2, e3, e4, e5, e6, e7]) =
           [S ''event='' @ e0, S ''day='' @ e1, S ''start='' @ e2, S ''end='' @ e3,
            S ''phone='' @ e4, S ''location='' @ e5, S ''info='' @ e6, S ''url='' @ e7]"
proof -
  have k: "38 \<notin> set (S ''event='')" "38 \<notin> set (S ''day='')" "38 \<notin> set (S ''start='')"
          "38 \<notin> set (S ''end='')" "38 \<notin> set (S ''phone='')" "38 \<notin> set (S ''location='')"
          "38 \<notin> set (S ''info='')" "38 \<notin> set (S ''url='')"
    by (simp_all add: S_def)
  have "list_all (\<lambda>p. 38 \<notin> set p)
          [S ''event='' @ e0, S ''day='' @ e1, S ''start='' @ e2, S ''end='' @ e3,
           S ''phone='' @ e4, S ''location='' @ e5, S ''info='' @ e6, S ''url='' @ e7]"
    using assms k by (simp add: plain_value_def)
  from split_join[OF _ this] show ?thesis
    by (simp add: form_line_def S_amp)
qed

lemma formatString_named:
  assumes "plain_value v" and "61 \<notin> set (S key)"
  shows "formatString (S (key @ ''='') @ v) = Inr (plus_to_space v)"
  using formatString_field[OF assms(2), of v] assms(1) by (simp add: plain_value_def)

lemma unquote_forms:
  "unquote decoding_world (last ampersand_form) =
     S ''event=a&b&day=c&start=d&end=e&phone=f&location=g&info=h&url=i''"
  "unquote decoding_world (last equals_form) =
     S ''event=a=b&day=c&start=d&end=e&phone=f&location=g&info=h&url=i''"
  by (simp_all add: decoding_world_def ampersand_form_def equals_form_def S_def
        hex_value_def)

lemma join_forms:
  "S ''event=a&b&day=c&start=d&end=e&phone=f&location=g&info=h&url=i'' =
     join [38] [S ''event=a'', S ''b'', S ''day=c'', S ''start=d'', S ''end=e'', S ''phone=f'',
                S ''location=g'', S ''info=h'', S ''url=i'']"
  "S ''event=a=b&day=c&start=d&end=e&phone=f&location=g&info=h&url=i'' =
     join [38] [S ''event=a=b'', S ''day=c'', S ''start=d'', S ''end=e'', S ''phone=f'',
                S ''location=g'', S ''info=h'', S ''url=i'']"
  by (simp_all add: S_def)

lemma split_forms:
  "split (S ''&'') (S ''event=a&b&day=c&start=d&end=e&phone=f&location=g&info=h&url=i'') =
     [S ''event=a'', S ''b'', S ''day=c'', S ''start=d'', S ''end=e'', S ''phone=f'',
      S ''location=g'', S ''info=h'', S ''url=i'']"
  "split (S ''&'') (S ''event=a=b&day=c&start=d&end=e&phone=f&location=g&info=h&url=i'') =
     [S ''event=a=b'', S ''day=c'', S ''start=d'', S ''end=e'', S ''phone=f'',
      S ''location=g'', S ''info=h'', S ''url=i'']"
  unfolding join_forms S_amp
  by (rule split_join, simp, simp add: S_def)+

lemma formatString_forms:
  "formatString (S ''event=a'') = Inr (S ''a'')"
  "formatString (S ''event=a=b'') = Inr (S ''a'')"
  "formatString (S ''b'') = Inl IndexError"
  "formatString (S ''day=c'') = Inr (S ''c'')"
  "formatString (S ''start=d'') = Inr (S ''d'')"
  "formatString (S ''end=e'') = Inr (S ''e'')"
  "formatString (S ''phone=f'') = Inr (S ''f'')"
  "formatString (S ''location=g'') = Inr (S ''g'')"
  "formatString (S ''info=h'') = Inr (S ''h'')"
  "formatString (S ''url=i'') = Inr (S ''i'')"
  by (simp_all add: formatString_def Let_def index_def replace_char_def S_def split_miss)




section \<open>get_request\<close>

lemma resource_forbidden_ok:
  assumes "open_read_text w (S ''./403.html'') = Inr page" and "encodable page"
    and "encodable (clock w)"
  shows "resource_forbidden w =
         Inr (utf8 (S ''HTTP/1.1 403 RESOURCE FORBIDDEN'' @ NEWLINE @
                    join NEWLINE
                      [S ''Connection: close'', S ''Date: : '' @ clock w,
                       S ''Content-Type: : text/html'',
                       S ''Content-Length: : '' @ str_nat (length (utf8 page)),
                       S ''Server: : Jacks HTTP server''] @ NEWLINE @ NEWLINE)
              @ utf8 page @ utf8 NEWLINE)"
proof -
  have enc: "encode page = Inr (utf8 page)"
    using assms(2) by (simp add: encode_def)
  have r: "snd (build (clock w)
           ((add_header (set_status init (S ''403'') (S ''RESOURCE FORBIDDEN''))
               (S ''Connection'') (S ''close''))
              \<lparr>content := Bytes (utf8 page), content_type := Some (S ''text/html'')\<rparr>)) =
         Inr (utf8 (S ''HTTP/1.1 403 RESOURCE FORBIDDEN'' @ NEWLINE @
                    join NEWLINE
                      [S ''Connection: close'', S ''Date: : '' @ clock w,
                       S ''Content-Type: : text/html'',
                       S ''Content-Length: : '' @ str_nat (length (utf8 page)),
                       S ''Server: : Jacks HTTP server''] @ NEWLINE @ NEWLINE)
              @ utf8 page @ utf8 NEWLINE)"
    using respond[of "S ''403''" "S ''RESOURCE FORBIDDEN''" "clock w" "S ''text/html''"
                     "utf8 page", OF encodable_S encodable_S assms(3) encodable_S]
    by (simp only: S_append S_append_assoc append_Cons append_Nil)
  show ?thesis
    by (simp only: resource_forbidden_def Let_def assms(1) and_then_Inr set_content.simps enc r)
qed

lemma ascii_decode_utf8_S: "ascii_decode (utf8 (S ''<h1>Forbidden</h1>'')) = Some (S ''<h1>Forbidden</h1>'')"
  by (simp add: ascii_decode_def utf8_def utf8_char_def S_def)

text \<open>
  C6. When the path exists and the read bit for others is clear in its mode, whatever
  the other bits are, \<open>get_request\<close> returns the 403 response with reason
  \<open>RESOURCE FORBIDDEN\<close>, content type \<open>text/html\<close> and the text of \<open>./403.html\<close> as body
  (provided that page can be read and encoded, and the clock reading encoded).
\<close>

theorem forbidden_response:
  assumes "stat w (S ''./'' @ target) = Some n" and "S_IROTH AND st_mode n = 0"
    and "open_read_text w (S ''./403.html'') = Inr page" and "encodable page"
    and "encodable (clock w)"
  shows "get_request w target data =
         Inr (utf8 (S ''HTTP/1.1 403 RESOURCE FORBIDDEN'' @ NEWLINE @
                    join NEWLINE
                      [S ''Connection: close'', S ''Date: : '' @ clock w,
                       S ''Content-Type: : text/html'',
                       S ''Content-Length: : '' @ str_nat (length (utf8 page)),
                       S ''Server: : Jacks HTTP server''] @ NEWLINE @ NEWLINE)
              @ utf8 page @ utf8 NEWLINE)"
proof -
  have "get_request w target data = resource_forbidden w"
    using assms(1,2)
    by (simp add: get_request_def Let_def path_exists_def has_permission_other_def
          del: S_append S_append_assoc)
  then show ?thesis
    using resource_forbidden_ok[OF assms(3,4,5)] by simp
qed

theorem forbidden_response_witness:
  "stat (example_world site_files) (S ''./'' @ S ''secret.html'')
     = Some \<lparr>st_mode = 504, may_open = True, kind = Regular (utf8 (S ''top''))\<rparr> \<and>
   S_IROTH AND (504::nat) = 0 \<and>
   open_read_text (example_world site_files) (S ''./403.html'') = Inr (S ''<h1>Forbidden</h1>'') \<and>
   get_request (example_world site_files) (S ''secret.html'') [] =
         Inr (utf8 (S ''HTTP/1.1 403 RESOURCE FORBIDDEN'' @ NEWLINE @
                    join NEWLINE
                      [S ''Connection: close'',
                       S ''Date: : '' @ clock (example_world site_files),
                       S ''Content-Type: : text/html'',
                       S ''Content-Length: : '' @
                         str_nat (length (utf8 (S ''<h1>Forbidden</h1>''))),
                       S ''Server: : Jacks HTTP server''] @ NEWLINE @ NEWLINE)
              @ utf8 (S ''<h1>Forbidden</h1>'') @ utf8 NEWLINE)"
proof -
  have s: "stat (example_world site_files) (S ''./'' @ S ''secret.html'')
     = Some \<lparr>st_mode = 504, may_open = True, kind = Regular (utf8 (S ''top''))\<rparr>"
    by (simp add: example_world_def site_files_def) (simp add: S_def)
  have m: "S_IROTH AND st_mode \<lparr>st_mode = 504, may_open = True, kind = Regular (utf8 (S ''top''))\<rparr> = 0"
    by (simp add: S_IROTH_def)
  have u: "universal_newlines (S ''<h1>Forbidden</h1>'') = S ''<h1>Forbidden</h1>''"
    by (simp add: S_def)
  have o: "open_read_text (example_world site_files) (S ''./403.html'') = Inr (S ''<h1>Forbidden</h1>'')"
    by (simp add: open_read_text_def open_read_binary_def example_world_def site_files_def
          ascii_decode_utf8_S u)
  have c: "encodable (clock (example_world site_files))"
    by (simp add: example_world_def)
  from forbidden_response[OF s m o encodable_S c, of "[]"] s m o show ?thesis by simp
qed

section \<open>The bytes of a response\<close>

lemma S_inj [simp]: "S a = S b \<longleftrightarrow> a = b"
proof -
  have "inj (of_char :: char \<Rightarrow> nat)"
    by (rule injI) simp
  then show ?thesis
    by (simp add: S_def inj_map_eq_map)
qed

lemma utf8_join_lines:
  "hs \<noteq> [] \<Longrightarrow> utf8 (join sep hs @ sep) = concat (map (\<lambda>h. utf8 h @ utf8 sep) hs)"
  by (induction sep hs rule: join.induct) simp_all

lemma build_layout:
  assumes "calls init cs = Inr b" and "build now b = (b', Inr msg)"
  shows "\<exists>st. status b = Some st \<and>
           msg = utf8 st @ utf8 NEWLINE @
                 concat (map (\<lambda>h. utf8 h @ utf8 NEWLINE) (headers b')) @ utf8 NEWLINE @
                 (case content b of Bytes bs \<Rightarrow> bs | Text s \<Rightarrow> utf8 s) @ utf8 NEWLINE"
proof -
  have st: "stored (content b)"
    using calls_stored[OF assms(1) init_stored] .
  from assms(2) have b': "b' = build_headers now b" and r: "render b' = Inr msg"
    by (auto simp: build_def Let_def)
  have st': "stored (content b')"
    using st by (simp add: b' build_headers_fields)
  from render_stored[OF st' r] obtain s where
    s: "status b' = Some s"
       "msg = utf8 (s @ NEWLINE @ join NEWLINE (headers b') @ NEWLINE @ NEWLINE)
                 @ body_of (content b') @ utf8 NEWLINE"
    by blast
  have ne: "headers b' \<noteq> []"
    by (simp add: b' build_headers_lines)
  have "utf8 (join NEWLINE (headers b') @ NEWLINE) =
          concat (map (\<lambda>h. utf8 h @ utf8 NEWLINE) (headers b'))"
    by (rule utf8_join_lines[OF ne])
  then have "msg = utf8 s @ utf8 NEWLINE @
                 concat (map (\<lambda>h. utf8 h @ utf8 NEWLINE) (headers b')) @ utf8 NEWLINE @
                 body_of (content b') @ utf8 NEWLINE"
    using s(2) by simp
  moreover have "body_of (content b') = (case content b of Bytes bs \<Rightarrow> bs | Text s \<Rightarrow> utf8 s)"
    by (simp add: b' build_headers_fields body_of_def split: content.splits)
  ultimately show ?thesis
    using s(1) by (simp add: b' build_headers_fields)
qed

lemma binary_mime:
  assumes "should_return_binary ext"
  shows "\<exists>mime. map_of mime_types ext = Some mime \<and> encodable mime"
  using assms
  by (auto simp: should_return_binary_def binary_type_files_def mime_types_def)

lemma get_request_binary:
  assumes "stat w (S ''./'' @ target) = Some n" and "S_IROTH AND st_mode n > 0"
    and "may_open n" and "kind n = Regular bs"
    and "file_extension_of (S ''./'' @ target) = Inr ext" and "should_return_binary ext"
    and "encodable (clock w)"
  shows "\<exists>mime. map_of mime_types ext = Some mime \<and>
           get_request w target data =
           Inr (utf8 (S ''HTTP/1.1 200 OK'' @ NEWLINE @
                    join NEWLINE
                      [S ''Connection: close'', S ''Date: : '' @ clock w,
                       S ''Content-Type: : '' @ mime,
                       S ''Content-Length: : '' @ str_nat (length bs),
                       S ''Server: : Jacks HTTP server''] @ NEWLINE @ NEWLINE)
              @ bs @ utf8 NEWLINE)"
proof -
  from binary_mime[OF assms(6)] obtain mime where
    m: "map_of mime_types ext = Some mime" and em: "encodable mime" by blast
  have g: "get_request w target data =
        snd (build (clock w)
           ((add_header (set_status init (S ''200'') (S ''OK'')) (S ''Connection'') (S ''close''))
              \<lparr>content := Bytes bs, content_type := Some mime\<rparr>))"
    using assms(1-6) m
    by (simp add: get_request_def Let_def path_exists_def has_permission_other_def
          open_read_binary_def get_file_mime_type_def del: S_append S_append_assoc)
  have "get_request w target data =
           Inr (utf8 (S ''HTTP/1.1 200 OK'' @ NEWLINE @
                    join NEWLINE
                      [S ''Connection: close'', S ''Date: : '' @ clock w,
                       S ''Content-Type: : '' @ mime,
                       S ''Content-Length: : '' @ str_nat (length bs),
                       S ''Server: : Jacks HTTP server''] @ NEWLINE @ NEWLINE)
              @ bs @ utf8 NEWLINE)"
    unfolding g
    using respond[of "S ''200''" "S ''OK''" "clock w" mime bs,
                  OF encodable_S encodable_S assms(7) em]
    by (simp only: S_append S_append_assoc append_Cons append_Nil)
  with m show ?thesis by blast
qed

lemma get_request_unknown_extension:
  assumes "stat w (S ''./'' @ target) = Some n" and "S_IROTH AND st_mode n > 0"
    and "file_extension_of (S ''./'' @ target) = Inr ext" and "\<not> should_return_binary ext"
    and "open_read_text w (S ''./'' @ target) = Inr text" and "encodable text"
    and "map_of mime_types ext = None"
  shows "get_request w target data = Inl KeyError"
  using assms
  by (simp add: get_request_def Let_def path_exists_def has_permission_other_def
        get_file_mime_type_def encode_def del: S_append S_append_assoc)

lemma get_request_no_extension:
  assumes "stat w (S ''./'' @ target) = Some n" and "S_IROTH AND st_mode n > 0"
    and "file_extension_of (S ''./'' @ target) = Inl e"
  shows "get_request w target data = Inl e"
  using assms
  by (simp add: get_request_def Let_def path_exists_def has_permission_other_def
        del: S_append S_append_assoc)


lemma site_stat:
  "stat (example_world site_files) (S ''./'' @ S ''photo.png'') =
     Some \<lparr>st_mode = 420, may_open = True, kind = Regular [137, 80, 78, 71, 13, 10, 26, 10]\<rparr>"
  "stat (example_world site_files) (S ''./'' @ S ''notes.txt'') =
     Some \<lparr>st_mode = 420, may_open = True, kind = Regular (utf8 (S ''hello''))\<rparr>"
  "stat (example_world site_files) (S ''./'' @ S ''README'') =
     Some \<lparr>st_mode = 420, may_open = True, kind = Regular (utf8 (S ''hello''))\<rparr>"
  by (simp_all add: example_world_def site_files_def)

lemma mode_644: "S_IROTH AND (420::nat) > 0"
  by (simp add: S_IROTH_def)

lemma site_extensions:
  "file_extension_of (S ''./'' @ S ''photo.png'') = Inr (S ''png'')"
  "file_extension_of (S ''./'' @ S ''notes.txt'') = Inr (S ''txt'')"
  "file_extension_of (S ''./'' @ S ''README'') = Inl IndexError"
  by (simp_all add: file_extension_of_target dots_def del: S_append S_append_assoc)
     (simp_all add: S_def split_miss)

lemma ascii_decode_hello: "ascii_decode (utf8 (S ''hello'')) = Some (S ''hello'')"
  by (simp add: ascii_decode_def utf8_def utf8_char_def S_def)

text \<open>
  The layout of a message, and the files served in binary mode. For every builder
  obtained from \<open>ResponseBuilder()\<close> by any sequence of calls, the message \<open>build\<close> returns
  is the status line and \<open>"\\r\\n"\<close>, every header line followed by \<open>"\\r\\n"\<close>, one more
  \<open>"\\r\\n"\<close>, the body and \<open>"\\r\\n"\<close>; everything is UTF-8 encoded but a \<open>bytes\<close> body,
  which stands in the message as it is. A readable file whose extension, as
  \<open>get_request\<close> takes it at index 2, is one of \<open>jpg\<close>, \<open>jpeg\<close>, \<open>png\<close>, \<open>mp3\<close> is answered
  with exactly its octets as body.
\<close>

theorem response_bytes:
  "(calls init cs = Inr b \<and> build now b = (b', Inr msg) \<longrightarrow>
      (\<exists>st. status b = Some st \<and>
         msg = utf8 st @ utf8 NEWLINE @
               concat (map (\<lambda>h. utf8 h @ utf8 NEWLINE) (headers b')) @ utf8 NEWLINE @
               (case content b of Bytes bs \<Rightarrow> bs | Text s \<Rightarrow> utf8 s) @ utf8 NEWLINE)) \<and>
   (stat w (S ''./'' @ target) = Some n \<and> S_IROTH AND st_mode n > 0 \<and> may_open n \<and>
    kind n = Regular file_bytes \<and> file_extension_of (S ''./'' @ target) = Inr ext \<and>
    should_return_binary ext \<and> encodable (clock w) \<longrightarrow>
      (\<exists>mime. map_of mime_types ext = Some mime \<and>
         get_request w target data =
           Inr (utf8 (S ''HTTP/1.1 200 OK'' @ NEWLINE @
                    join NEWLINE
                      [S ''Connection: close'', S ''Date: : '' @ clock w,
                       S ''Content-Type: : '' @ mime,
                       S ''Content-Length: : '' @ str_nat (length file_bytes),
                       S ''Server: : Jacks HTTP server''] @ NEWLINE @ NEWLINE)
              @ file_bytes @ utf8 NEWLINE)))"
  using build_layout get_request_binary by blast

theorem response_bytes_witness:
  "(\<exists>b b' msg st.
      calls init [Set_status (S ''200'') (S ''OK''), Add_header (S ''Connection'') (S ''close''),
                  Set_content (Bytes [137, 80]), Assign_content_type (Some (S ''image/png''))]
        = Inr b \<and>
      build (S ''now'') b = (b', Inr msg) \<and> status b = Some st \<and>
      msg = utf8 st @ utf8 NEWLINE @
            concat (map (\<lambda>h. utf8 h @ utf8 NEWLINE) (headers b')) @ utf8 NEWLINE @
            [137, 80] @ utf8 NEWLINE) \<and>
   get_request (example_world site_files) (S ''photo.png'') [] =
     Inr (utf8 (S ''HTTP/1.1 200 OK'' @ NEWLINE @
                join NEWLINE
                  [S ''Connection: close'',
                   S ''Date: : '' @ clock (example_world site_files),
                   S ''Content-Type: : image/png'',
                   S ''Content-Length: : '' @ str_nat 8,
                   S ''Server: : Jacks HTTP server''] @ NEWLINE @ NEWLINE)
          @ [137, 80, 78, 71, 13, 10, 26, 10] @ utf8 NEWLINE)"
proof -
  define b where "b = \<lparr>headers = [S ''Connection: close''], status = Some (S ''HTTP/1.1 200 OK''),
                       content = Bytes [137, 80], content_type = Some (S ''image/png'')\<rparr>"
  have c: "calls init [Set_status (S ''200'') (S ''OK''), Add_header (S ''Connection'') (S ''close''),
                  Set_content (Bytes [137, 80]), Assign_content_type (Some (S ''image/png''))]
             = Inr b"
    by (simp add: b_def init_def set_status_def add_header_def)
  have "\<exists>msg. snd (build (S ''now'') b) = Inr msg"
    by (subst build_ok[where st = "S ''HTTP/1.1 200 OK''" and bs = "[137, 80]"
                        and ct = "S ''image/png''"])
       (simp_all add: b_def)
  then obtain msg where "snd (build (S ''now'') b) = Inr msg" ..
  then have r: "build (S ''now'') b = (fst (build (S ''now'') b), Inr msg)"
    by (simp add: prod_eq_iff)
  have cb: "content b = Bytes [137, 80]" by (simp add: b_def)
  from response_bytes[THEN conjunct1, rule_format, OF conjI[OF c r]] cb
  have p1: "\<exists>st. status b = Some st \<and>
         msg = utf8 st @ utf8 NEWLINE @
               concat (map (\<lambda>h. utf8 h @ utf8 NEWLINE) (headers (fst (build (S ''now'') b))))
               @ utf8 NEWLINE @ [137, 80] @ utf8 NEWLINE"
    by simp
  have h: "stat (example_world site_files) (S ''./'' @ S ''photo.png'') =
             Some \<lparr>st_mode = 420, may_open = True,
                   kind = Regular [137, 80, 78, 71, 13, 10, 26, 10]\<rparr> \<and>
           S_IROTH AND st_mode \<lparr>st_mode = 420, may_open = True,
                   kind = Regular [137, 80, 78, 71, 13, 10, 26, 10]\<rparr> > 0 \<and>
           may_open \<lparr>st_mode = 420, may_open = True,
                   kind = Regular [137, 80, 78, 71, 13, 10, 26, 10]\<rparr> \<and>
           kind \<lparr>st_mode = 420, may_open = True,
                   kind = Regular [137, 80, 78, 71, 13, 10, 26, 10]\<rparr>
             = Regular [137, 80, 78, 71, 13, 10, 26, 10] \<and>
           file_extension_of (S ''./'' @ S ''photo.png'') = Inr (S ''png'') \<and>
           should_return_binary (S ''png'') \<and>
           encodable (clock (example_world site_files))"
    using site_stat(1) mode_644 site_extensions(1)
    by (simp add: should_return_binary_def binary_type_files_def example_world_def)
  have m: "map_of mime_types (S ''png'') = Some (S ''image/png'')"
    by (simp add: mime_types_def)
  from response_bytes[THEN conjunct2, rule_format, OF h, of "[]"]
  obtain mime where mm: "map_of mime_types (S ''png'') = Some mime"
    and g: "get_request (example_world site_files) (S ''photo.png'') [] =
     Inr (utf8 (S ''HTTP/1.1 200 OK'' @ NEWLINE @
                join NEWLINE
                  [S ''Connection: close'',
                   S ''Date: : '' @ clock (example_world site_files),
                   S ''Content-Type: : '' @ mime,
                   S ''Content-Length: : '' @
                     str_nat (length [137, 80, 78, 71, 13, 10, 26, 10 :: byte]),
                   S ''Server: : Jacks HTTP server''] @ NEWLINE @ NEWLINE)
          @ [137, 80, 78, 71, 13, 10, 26, 10] @ utf8 NEWLINE)"
    by (auto simp only: S_append append_Cons append_Nil)
  have me: "mime = S ''image/png''"
    using mm m by simp
  have len: "length [137, 80, 78, 71, 13, 10, 26, 10 :: byte] = 8"
    by simp
  from g have p2: "get_request (example_world site_files) (S ''photo.png'') [] =
     Inr (utf8 (S ''HTTP/1.1 200 OK'' @ NEWLINE @
                join NEWLINE
                  [S ''Connection: close'',
                   S ''Date: : '' @ clock (example_world site_files),
                   S ''Content-Type: : image/png'',
                   S ''Content-Length: : '' @ str_nat 8,
                   S ''Server: : Jacks HTTP server''] @ NEWLINE @ NEWLINE)
          @ [137, 80, 78, 71, 13, 10, 26, 10] @ utf8 NEWLINE)"
    by (simp only: me len S_append append_Cons append_Nil)
  from p1 c r p2 show ?thesis by blast
qed

text \<open>
  C2, at two files that exist and are readable by everyone: \<open>notes.txt\<close>, whose
  extension is not in \<open>mime_types\<close>, raises \<open>KeyError\<close> in \<open>get_file_mime_type\<close>, and
  \<open>README\<close>, which has no extension, raises \<open>IndexError\<close> at \<open>split(".")[2]\<close>. The claim
  says both are answered with status 200 and content type \<open>text/plain\<close>.
\<close>

theorem unlisted_extension_raises:
  "get_request (example_world site_files) (S ''notes.txt'') [] = Inl KeyError \<and>
   get_request (example_world site_files) (S ''README'') [] = Inl IndexError"
proof -
  have u: "universal_newlines (S ''hello'') = S ''hello''"
    by (simp add: S_def)
  have o: "open_read_text (example_world site_files) (S ''./'' @ S ''notes.txt'') = Inr (S ''hello'')"
    by (simp add: open_read_text_def open_read_binary_def example_world_def site_files_def
          ascii_decode_hello u)
  have nb: "\<not> should_return_binary (S ''txt'')"
    by (simp add: should_return_binary_def binary_type_files_def)
  have nm: "map_of mime_types (S ''txt'') = None"
    by (simp add: mime_types_def)
  have m: "S_IROTH AND st_mode \<lparr>st_mode = 420, may_open = True,
             kind = Regular (utf8 (S ''hello''))\<rparr> > 0"
    using mode_644 by simp
  have "get_request (example_world site_files) (S ''notes.txt'') [] = Inl KeyError"
    by (rule get_request_unknown_extension[OF site_stat(2) m site_extensions(2) nb o encodable_S nm])
  moreover have "get_request (example_world site_files) (S ''README'') [] = Inl IndexError"
    by (rule get_request_no_extension[OF site_stat(3) m site_extensions(3)])
  ultimately show ?thesis ..
qed

section \<open>Files served in text mode\<close>

lemma get_request_text:
  assumes "stat w (S ''./'' @ target) = Some n" and "S_IROTH AND st_mode n > 0"
    and "file_extension_of (S ''./'' @ target) = Inr ext" and "\<not> should_return_binary ext"
    and "open_read_text w (S ''./'' @ target) = Inr text" and "encodable text"
    and "map_of mime_types ext = Some mime" and "encodable mime" and "encodable (clock w)"
  shows "get_request w target data =
           Inr (utf8 (S ''HTTP/1.1 200 OK'' @ NEWLINE @
                    join NEWLINE
                      [S ''Connection: close'', S ''Date: : '' @ clock w,
                       S ''Content-Type: : '' @ mime,
                       S ''Content-Length: : '' @ str_nat (length (utf8 text)),
                       S ''Server: : Jacks HTTP server''] @ NEWLINE @ NEWLINE)
              @ utf8 text @ utf8 NEWLINE)"
proof -
  have g: "get_request w target data =
        snd (build (clock w)
           ((add_header (set_status init (S ''200'') (S ''OK'')) (S ''Connection'') (S ''close''))
              \<lparr>content := Bytes (utf8 text), content_type := Some mime\<rparr>))"
    using assms(1-7)
    by (simp add: get_request_def Let_def path_exists_def has_permission_other_def
          get_file_mime_type_def encode_def del: S_append S_append_assoc utf8_append)
  show ?thesis
    unfolding g
    using respond[of "S ''200''" "S ''OK''" "clock w" mime "utf8 text",
                  OF encodable_S encodable_S assms(9) assms(8)]
    by (simp only: S_append S_append_assoc append_Cons append_Nil)
qed

lemma get_request_read_error:
  assumes "stat w (S ''./'' @ target) = Some n" and "S_IROTH AND st_mode n > 0"
    and "file_extension_of (S ''./'' @ target) = Inr ext" and "\<not> should_return_binary ext"
    and "open_read_text w (S ''./'' @ target) = Inl e"
  shows "get_request w target data = Inl e"
  using assms
  by (simp add: get_request_def Let_def path_exists_def has_permission_other_def
        del: S_append S_append_assoc)

lemma dotted_stat:
  "stat (example_world dotted_files) (S ''./'' @ S ''a.html.png'') =
     Some \<lparr>st_mode = 420, may_open = True, kind = Regular [80, 13, 10]\<rparr>"
  "stat (example_world dotted_files) (S ''./'' @ S ''my.photo.png'') =
     Some \<lparr>st_mode = 420, may_open = True, kind = Regular [137, 80, 78, 71]\<rparr>"
  "stat (example_world dotted_files) (S ''./'' @ S ''empty.html'') =
     Some \<lparr>st_mode = 420, may_open = True, kind = Regular []\<rparr>"
  by (simp_all add: example_world_def dotted_files_def)

lemma dotted_extensions:
  "file_extension_of (S ''./'' @ S ''a.html.png'') = Inr (S ''html'')"
  "file_extension_of (S ''./'' @ S ''my.photo.png'') = Inr (S ''photo'')"
  "file_extension_of (S ''./'' @ S ''empty.html'') = Inr (S ''html'')"
  by (simp_all add: file_extension_of_target dots_def del: S_append S_append_assoc)
     (simp_all add: S_def split_miss)

lemma dotted_reads:
  "open_read_text (example_world dotted_files) (S ''./'' @ S ''a.html.png'') = Inr [80, 10]"
  "open_read_text (example_world dotted_files) (S ''./'' @ S ''my.photo.png'')
     = Inl UnicodeDecodeError"
  "open_read_text (example_world dotted_files) (S ''./'' @ S ''empty.html'') = Inr []"
  by (simp_all add: open_read_text_def open_read_binary_def example_world_def dotted_files_def
        ascii_decode_def)

lemma mode_644_node:
  "S_IROTH AND st_mode \<lparr>st_mode = 420, may_open = True, kind = k\<rparr> > 0"
  using mode_644 by simp

lemma html_mime:
  "\<not> should_return_binary (S ''html'')" "map_of mime_types (S ''html'') = Some (S ''text/html'')"
  "\<not> should_return_binary (S ''photo'')"
  by (simp_all add: should_return_binary_def binary_type_files_def mime_types_def)

lemma example_clock: "encodable (clock (example_world files))"
  by (simp add: example_world_def)

text \<open>
  C5 at two files whose names end in \<open>.png\<close>. \<open>get_request\<close> takes index 2 of
  \<open>("./" + target).split(".")\<close> as the extension: for \<open>a.html.png\<close> that is \<open>html\<close>, so the
  file is read in text mode and its octets \<open>P\<close>, CR, LF are answered as \<open>P\<close>, LF with
  content type \<open>text/html\<close>; for \<open>my.photo.png\<close> it is \<open>photo\<close>, the text-mode read of the
  PNG octets raises \<open>UnicodeDecodeError\<close> and nothing is answered. The claim says both
  are answered with the octets of the file.
\<close>

theorem binary_file_altered:
  "last_segment (S ''a.html.png'') = S ''png'' \<and>
   stat (example_world dotted_files) (S ''./a.html.png'') =
     Some \<lparr>st_mode = 420, may_open = True, kind = Regular [80, 13, 10]\<rparr> \<and>
   get_request (example_world dotted_files) (S ''a.html.png'') [] =
     Inr (utf8 (S ''HTTP/1.1 200 OK'' @ NEWLINE @
                join NEWLINE
                  [S ''Connection: close'',
                   S ''Date: : '' @ clock (example_world dotted_files),
                   S ''Content-Type: : text/html'',
                   S ''Content-Length: : 2'',
                   S ''Server: : Jacks HTTP server''] @ NEWLINE @ NEWLINE)
          @ [80, 10] @ utf8 NEWLINE) \<and>
   last_segment (S ''my.photo.png'') = S ''png'' \<and>
   get_request (example_world dotted_files) (S ''my.photo.png'') [] = Inl UnicodeDecodeError"
proof -
  have l: "last_segment (S ''a.html.png'') = S ''png''"
          "last_segment (S ''my.photo.png'') = S ''png''"
    by (simp_all add: last_segment_def S_def split_miss)
  have s: "stat (example_world dotted_files) (S ''./a.html.png'') =
     Some \<lparr>st_mode = 420, may_open = True, kind = Regular [80, 13, 10]\<rparr>"
    using dotted_stat(1) by simp
  have e: "encodable [80, 10]"
    by (simp add: encodable_char_def)
  have u: "utf8 [80, 10] = [80, 10]"
    by (simp add: utf8_def utf8_char_def)
  have n: "str_nat (length [80, 10 :: byte]) = S ''2''"
    by (simp add: str_nat.simps S_def)
  have "get_request (example_world dotted_files) (S ''a.html.png'') [] =
     Inr (utf8 (S ''HTTP/1.1 200 OK'' @ NEWLINE @
                join NEWLINE
                  [S ''Connection: close'',
                   S ''Date: : '' @ clock (example_world dotted_files),
                   S ''Content-Type: : text/html'',
                   S ''Content-Length: : 2'',
                   S ''Server: : Jacks HTTP server''] @ NEWLINE @ NEWLINE)
          @ [80, 10] @ utf8 NEWLINE)"
    using get_request_text[OF dotted_stat(1) mode_644_node dotted_extensions(1) html_mime(1)
            dotted_reads(1) e html_mime(2) encodable_S example_clock, of "[]"]
    by (simp only: u n S_append append_Cons append_Nil)
  moreover have "get_request (example_world dotted_files) (S ''my.photo.png'') []
                   = Inl UnicodeDecodeError"
    by (rule get_request_read_error[OF dotted_stat(2) mode_644_node dotted_extensions(2)
              html_mime(3) dotted_reads(2)])
  ultimately show ?thesis using l s by simp
qed

text \<open>
  C8, as stated, fails: after \<open>set_content("")\<close> the content is the empty \<open>bytes\<close>, which
  is not equal to \<open>""\<close>, so \<open>build\<close> writes the builder's own content type. The builder
  below has its status set and \<open>build\<close> returns the message; the empty file
  \<open>empty.html\<close> is answered the same way, with \<open>text/html\<close>.
\<close>

theorem empty_content_type_counterexample:
  "calls init [Set_status (S ''200'') (S ''OK''), Set_content (Text []),
               Assign_content_type (Some (S ''text/html''))]
     = Inr \<lparr>headers = [], status = Some (S ''HTTP/1.1 200 OK''), content = Bytes [],
            content_type = Some (S ''text/html'')\<rparr> \<and>
   body_of (Bytes []) = [] \<and>
   snd (build (S ''now'')
      \<lparr>headers = [], status = Some (S ''HTTP/1.1 200 OK''), content = Bytes [],
       content_type = Some (S ''text/html'')\<rparr>) =
     Inr (utf8 (S ''HTTP/1.1 200 OK'' @ NEWLINE @
                join NEWLINE
                  [S ''Date: : now'', S ''Content-Type: : text/html'',
                   S ''Content-Length: : 0'', S ''Server: : Jacks HTTP server'']
                @ NEWLINE @ NEWLINE) @ [] @ utf8 NEWLINE) \<and>
   S ''Content-Type: : text/html'' \<noteq> S ''Content-Type: : text/plain'' \<and>
   get_request (example_world dotted_files) (S ''empty.html'') [] =
     Inr (utf8 (S ''HTTP/1.1 200 OK'' @ NEWLINE @
                join NEWLINE
                  [S ''Connection: close'',
                   S ''Date: : '' @ clock (example_world dotted_files),
                   S ''Content-Type: : text/html'',
                   S ''Content-Length: : 0'',
                   S ''Server: : Jacks HTTP server''] @ NEWLINE @ NEWLINE)
          @ [] @ utf8 NEWLINE)"
proof -
  let ?b = "\<lparr>headers = [], status = Some (S ''HTTP/1.1 200 OK''), content = Bytes [],
            content_type = Some (S ''text/html'')\<rparr>"
  have c: "calls init [Set_status (S ''200'') (S ''OK''), Set_content (Text []),
               Assign_content_type (Some (S ''text/html''))] = Inr ?b"
    by (simp add: init_def set_status_def encode_def)
  have n: "str_nat (length ([] :: pybytes)) = S ''0''"
    by (simp add: str_nat_0)
  have b: "snd (build (S ''now'') ?b) =
     Inr (utf8 (S ''HTTP/1.1 200 OK'' @ NEWLINE @
                join NEWLINE
                  [S ''Date: : now'', S ''Content-Type: : text/html'',
                   S ''Content-Length: : 0'', S ''Server: : Jacks HTTP server'']
                @ NEWLINE @ NEWLINE) @ [] @ utf8 NEWLINE)"
  proof -
    have h: "headers ?b = []" by simp
    have "snd (build (S ''now'') ?b) =
      Inr (utf8 (S ''HTTP/1.1 200 OK'' @ NEWLINE @
                 join NEWLINE (headers ?b @
                   [S ''Date: : '' @ S ''now'', S ''Content-Type: : '' @ S ''text/html'',
                    S ''Content-Length: : '' @ str_nat (length ([] :: pybytes)),
                    S ''Server: : Jacks HTTP server'']) @ NEWLINE @ NEWLINE)
           @ [] @ utf8 NEWLINE)"
      by (rule build_ok) simp_all
    then show ?thesis
      by (simp only: h n S_append append_Cons append_Nil)
  qed
  have g: "get_request (example_world dotted_files) (S ''empty.html'') [] =
     Inr (utf8 (S ''HTTP/1.1 200 OK'' @ NEWLINE @
                join NEWLINE
                  [S ''Connection: close'',
                   S ''Date: : '' @ clock (example_world dotted_files),
                   S ''Content-Type: : text/html'',
                   S ''Content-Length: : 0'',
                   S ''Server: : Jacks HTTP server''] @ NEWLINE @ NEWLINE)
          @ [] @ utf8 NEWLINE)"
    using get_request_text[OF dotted_stat(3) mode_644_node dotted_extensions(3) html_mime(1)
            dotted_reads(3) encodable_Nil html_mime(2) encodable_S example_clock, of "[]"]
    by (simp only: utf8_Nil n S_append append_Cons append_Nil)
  show ?thesis
    using c b g by (simp add: body_of_def)
qed

end
